theory Spec2Isabelle
  imports Main
begin

section \<open>JavaScript string primitives used by the editor\<close>

text \<open>
  Strings are lists of code units. The editor uses \<open>trim\<close>, \<open>split\<close>, \<open>join\<close>,
  \<open>startsWith\<close> and a global replace of the single quote.
\<close>

definition isSpace :: "char \<Rightarrow> bool" where
  \<comment> \<open>The white space \<open>String.prototype.trim\<close> removes, among code units below 256:
      tab, line feed, vertical tab, form feed, carriage return, space, no-break space.\<close>
  "isSpace c = (c \<in> set [CHR 0x09, CHR 0x0A, CHR 0x0B, CHR 0x0C, CHR 0x0D, CHR 0x20, CHR 0xA0])"

definition trim :: "string \<Rightarrow> string" where
  "trim s = rev (dropWhile isSpace (rev (dropWhile isSpace s)))"

definition startsWith :: "string \<Rightarrow> string \<Rightarrow> bool" where
  \<comment> \<open>\<open>s.startsWith(p)\<close>\<close>
  "startsWith p s = (take (length p) s = p)"

fun occursIn :: "string \<Rightarrow> string \<Rightarrow> bool" where
  \<comment> \<open>\<open>s.includes(d)\<close>: \<open>d\<close> occurs somewhere in \<open>s\<close>\<close>
  "occursIn d [] = (d = [])"
| "occursIn d (c # cs) = (startsWith d (c # cs) \<or> occursIn d cs)"

function split :: "string \<Rightarrow> string \<Rightarrow> string list" where
  \<comment> \<open>\<open>s.split(sep)\<close>: cut at the occurrences of \<open>sep\<close>, found from the left and not
      overlapping; an empty separator cuts into single code units.\<close>
  "split sep s =
     (if sep = [] then map (\<lambda>c. [c]) s
      else if s = [] then [[]]
      else if startsWith sep s then [] # split sep (drop (length sep) s)
      else (case split sep (tl s) of
              [] \<Rightarrow> [[hd s]]
            | p # ps \<Rightarrow> (hd s # p) # ps))"
  by pat_completeness auto
termination
  by (relation "measure (\<lambda>(sep, s). length s)") auto

declare split.simps [simp del]

fun join :: "string \<Rightarrow> string list \<Rightarrow> string" where
  \<comment> \<open>\<open>xs.join(sep)\<close>\<close>
  "join sep [] = []"
| "join sep [x] = x"
| "join sep (x # y # ys) = x @ sep @ join sep (y # ys)"

definition stripQuotes :: "string \<Rightarrow> string" where
  \<comment> \<open>\<open>line.replace(/'/g, "")\<close>\<close>
  "stripQuotes line = filter (\<lambda>c. c \<noteq> CHR 0x27) line"

definition truthy :: "string option \<Rightarrow> bool" where
  \<comment> \<open>A value of type \<open>string | null | undefined\<close> in a condition: \<open>null\<close>,
      \<open>undefined\<close> and the empty string are false.\<close>
  "truthy v = (case v of None \<Rightarrow> False | Some s \<Rightarrow> s \<noteq> [])"

definition orEmpty :: "string option \<Rightarrow> string" where
  \<comment> \<open>\<open>v || ""\<close>\<close>
  "orEmpty v = (case v of None \<Rightarrow> [] | Some s \<Rightarrow> s)"

section \<open>Data model (types.ts)\<close>

datatype tagsValue = TagString string | TagArray "string list"

text \<open>
  \<open>Partial<Metadata>\<close>: every field may be absent. The record does not keep the order
  of an object's keys.
\<close>

record Metadata =
  title :: "string option"
  published :: "string option"
  updated :: "string option"
  description :: "string option"
  tags :: "tagsValue option"
  category :: "string option"

definition emptyMetadata :: Metadata where
  \<comment> \<open>The object literal \<open>{}\<close>\<close>
  "emptyMetadata = \<lparr>title = None, published = None, updated = None, description = None,
     tags = None, category = None\<rparr>"

record ParsedContent =
  pc_metadata :: Metadata
  pc_body :: string

record Draft =
  d_metadata :: Metadata
  d_body :: string
  d_savedAt :: string

record CurrentFile =
  path :: "string option"
  sha :: "string option"
  isNew :: bool

record EditorState =
  user :: string
  repo :: string
  pat :: string
  currentFile :: CurrentFile

section \<open>External collaborators\<close>

text \<open>
  The YAML library (\<open>jsyaml\<close>), the \<open>Date\<close> object, the clock, the storage quota and
  the user answering a \<open>confirm\<close> dialog are not part of the repository. They are
  parameters of the model.
\<close>

datatype loaded =
    LoadThrows \<comment> \<open>\<open>jsyaml.load\<close> raises\<close>
  | LoadFalsy \<comment> \<open>\<open>jsyaml.load\<close> returns a false value (an empty document)\<close>
  | LoadObject Metadata

datatype dialog =
    DraftDialog string \<comment> \<open>load the draft saved at the given time?\<close>
  | DeleteDialog string \<comment> \<open>delete the file at the given path?\<close>

record Env =
  yamlDump :: "Metadata \<Rightarrow> string"
    \<comment> \<open>\<open>jsyaml.dump(m, {lineWidth: -1, noQuotes: true, flowLevel: 1})\<close>\<close>
  yamlLoad :: "string \<Rightarrow> loaded"
  isoDay :: "string \<Rightarrow> string option"
    \<comment> \<open>\<open>new Date(s).toISOString().split("T")[0]\<close>; \<open>None\<close> when \<open>toISOString\<close>
        raises a RangeError on an invalid date\<close>
  clock :: string
    \<comment> \<open>\<open>new Date().toISOString()\<close>\<close>
  setItemFails :: bool
    \<comment> \<open>\<open>localStorage.setItem\<close> raises (quota exceeded)\<close>
  confirm :: "dialog \<Rightarrow> bool"
    \<comment> \<open>the user's answer to a \<open>confirm\<close> dialog\<close>

section \<open>Content codec (utils.ts)\<close>

definition parseContent :: "Env \<Rightarrow> string \<Rightarrow> ParsedContent" where
  "parseContent env content =
     (let parts = split ''---'' content in
      if length parts < 3 then \<lparr>pc_metadata = emptyMetadata, pc_body = content\<rparr>
      else (case yamlLoad env (parts ! 1) of
              LoadThrows \<Rightarrow> \<lparr>pc_metadata = emptyMetadata, pc_body = content\<rparr>
            | LoadFalsy \<Rightarrow>
                \<lparr>pc_metadata = emptyMetadata, pc_body = trim (join ''---'' (drop 2 parts))\<rparr>
            | LoadObject m \<Rightarrow>
                \<lparr>pc_metadata = m, pc_body = trim (join ''---'' (drop 2 parts))\<rparr>))"

definition cleanTags :: "tagsValue option \<Rightarrow> tagsValue" where
  \<comment> \<open>Lines 145 to 152 of \<open>stringifyMetadata\<close>: a string is cut at the commas, the
      entries trimmed and the empty ones dropped; an array is kept; anything else
      becomes the empty array.\<close>
  "cleanTags t =
     (case t of
        Some (TagString s) \<Rightarrow> TagArray (filter (\<lambda>tag. tag \<noteq> []) (map trim (split '','' s)))
      | Some (TagArray ts) \<Rightarrow> TagArray ts
      | None \<Rightarrow> TagArray [])"

definition cleanMeta :: "Metadata \<Rightarrow> Metadata" where
  "cleanMeta m = m\<lparr>tags := Some (cleanTags (tags m))\<rparr>"

definition keyedLine :: "string \<Rightarrow> bool" where
  "keyedLine line =
     (startsWith ''published:'' line \<or> startsWith ''updated:'' line \<or> startsWith ''tags:'' line)"

definition processLine :: "string \<Rightarrow> string" where
  \<comment> \<open>The callback of \<open>lines.map\<close>\<close>
  "processLine line = (if keyedLine line then stripQuotes line else line)"

definition processYaml :: "string \<Rightarrow> string" where
  \<comment> \<open>Lines 161 to 174 of \<open>stringifyMetadata\<close>, applied to \<open>yamlString\<close>\<close>
  "processYaml yamlString =
     (let lines = split [CHR 0x0A] yamlString;
          processedLines = map processLine lines
      in join [CHR 0x0A] (filter (\<lambda>line. line \<noteq> []) processedLines))"

definition stringifyMetadata :: "Env \<Rightarrow> Metadata \<Rightarrow> string" where
  "stringifyMetadata env m = processYaml (yamlDump env (cleanMeta m))"

definition createFullMarkdown :: "Env \<Rightarrow> Metadata \<Rightarrow> string \<Rightarrow> string" where
  "createFullMarkdown env m b =
     ''---'' @ [CHR 0x0A] @ stringifyMetadata env m @ [CHR 0x0A] @ ''---'' @ [CHR 0x0A, CHR 0x0A] @ b"

section \<open>Draft store (utils.ts)\<close>

datatype error =
    StorageFull \<comment> \<open>raised by \<open>saveDraftToStorage\<close> when \<open>setItem\<close> fails\<close>
  | DraftCorrupted \<comment> \<open>raised by \<open>loadDraftFromStorage\<close> when \<open>JSON.parse\<close> fails\<close>
  | MissingShaUpdate \<comment> \<open>raised by \<open>handleSave\<close>\<close>
  | MissingShaDelete \<comment> \<open>raised by \<open>confirmAndDeleteFile\<close>\<close>
  | InvalidTime \<comment> \<open>the RangeError of \<open>toISOString\<close>\<close>
  | NoEditor \<comment> \<open>the TypeError of a method call on the null \<open>vditorInstance\<close>\<close>
  | Transport string \<comment> \<open>raised by \<open>githubApiRequest\<close>, with the message of the response\<close>

text \<open>
  An entry of \<open>localStorage\<close> under a draft key: the JSON text of a draft, or text that
  \<open>JSON.parse\<close> rejects. \<open>JSON.stringify\<close> followed by \<open>JSON.parse\<close> gives back a value
  of type \<open>Draft\<close> as it was, so the entry holds the draft itself.
\<close>

datatype stored = Garbled | DraftEntry Draft

type_synonym storage = "string \<rightharpoonup> stored"

definition getDraftKey :: "EditorState \<Rightarrow> string option \<Rightarrow> string option" where
  "getDraftKey st p =
     (if \<not> truthy p then None
      else Some (''draft_'' @ user st @ ''_'' @ repo st @ ''_'' @ orEmpty p))"

definition saveDraftToStorage ::
  "Env \<Rightarrow> EditorState \<Rightarrow> string option \<Rightarrow> Metadata \<Rightarrow> string \<Rightarrow> storage \<Rightarrow> error + storage" where
  "saveDraftToStorage env st p m b ls =
     (case getDraftKey st p of
        None \<Rightarrow> Inr ls
      | Some key \<Rightarrow>
          (let draft = \<lparr>d_metadata = m, d_body = b, d_savedAt = clock env\<rparr> in
           if setItemFails env then Inl StorageFull
           else Inr (ls(key \<mapsto> DraftEntry draft))))"

definition loadDraftFromStorage ::
  "EditorState \<Rightarrow> string option \<Rightarrow> storage \<Rightarrow> storage \<times> (error + Draft option)" where
  \<comment> \<open>The storage comes back too: a corrupted entry is removed before the error is raised.\<close>
  "loadDraftFromStorage st p ls =
     (case getDraftKey st p of
        None \<Rightarrow> (ls, Inr None)
      | Some key \<Rightarrow>
          (case ls key of
             None \<Rightarrow> (ls, Inr None)
           | Some Garbled \<Rightarrow> (ls(key := None), Inl DraftCorrupted)
           | Some (DraftEntry d) \<Rightarrow> (ls, Inr (Some d))))"

definition clearDraftFromStorage :: "EditorState \<Rightarrow> string option \<Rightarrow> storage \<Rightarrow> storage" where
  "clearDraftFromStorage st p ls =
     (case getDraftKey st p of None \<Rightarrow> ls | Some key \<Rightarrow> ls(key := None))"

section \<open>Editor state (editor.ts)\<close>

record MetaInputs =
  title_value :: string
  published_value :: string
  updated_value :: string
  description_value :: string
  tags_value :: string
  category_value :: string

text \<open>
  The editing widget holds the body text. It is constructed with \<open>input: markAsDirty\<close>;
  whether \<open>setValue\<close> calls that callback is the widget's own behaviour, recorded in
  \<open>inputOnSetValue\<close>. Vditor's \<open>setValue\<close> renders with input notification off, so the
  field is \<open>False\<close> for the widget the editor uses.
\<close>

record Vditor =
  v_value :: string
  inputOnSetValue :: bool

datatype notice =
    Raw error \<comment> \<open>\<open>e.message\<close>\<close>
  | DraftLoaded
  | LoadFailed error
  | SaveFailed error
  | SaveOk
  | NoFileToSave
  | RefreshFailed
  | NewFileCancelled
  | DeleteOk
  | DeleteFailed error
  | NoFileSelected

datatype status =
    Blank
  | Unsaved \<comment> \<open>set by \<open>markAsDirty\<close>\<close>
  | DraftSavedAt string \<comment> \<open>set by \<open>saveDraft\<close>\<close>
  | Shown notice bool \<comment> \<open>\<open>showSaveStatus(message, isError)\<close>\<close>

datatype request =
    GetFiles
  | GetFileContent string
  | CreateFile string string
  | UpdateFile string string string
  | DeleteFile string string

text \<open>
  The module's variables and what its effects reach: the session and current file
  (\<open>state\<close>), the dirty flag, the widget, the metadata inputs, the status line, the
  local storage, the \<open>confirm\<close> dialogs shown so far and the requests sent to the
  remote API so far. The styling of the page, the file list and the timers that blank
  the status line later are left out.
\<close>

record World =
  state :: EditorState
  isDirty :: bool
  vditorInstance :: "Vditor option"
  meta :: MetaInputs
  saveStatus :: status
  localStorage :: storage
  prompts :: "dialog list"
  requests :: "request list"

definition setCurrentFile :: "CurrentFile \<Rightarrow> World \<Rightarrow> World" where
  \<comment> \<open>an assignment to \<open>state.currentFile\<close>\<close>
  "setCurrentFile cf w = w\<lparr>state := (state w)\<lparr>currentFile := cf\<rparr>\<rparr>"

definition currentPath :: "World \<Rightarrow> string option" where
  \<comment> \<open>\<open>state.currentFile.path\<close>\<close>
  "currentPath w = path (currentFile (state w))"

definition markAsDirty :: "World \<Rightarrow> World" where
  "markAsDirty w =
     (if \<not> isDirty w \<and> truthy (currentPath w)
      then w\<lparr>isDirty := True, saveStatus := Unsaved\<rparr>
      else w)"

definition markAsClean :: "World \<Rightarrow> World" where
  "markAsClean w = w\<lparr>isDirty := False, saveStatus := Blank\<rparr>"

definition getEditorMetadata :: "World \<Rightarrow> Metadata" where
  "getEditorMetadata w =
     \<lparr>title = Some (title_value (meta w)),
      published = Some (published_value (meta w)),
      updated = Some (updated_value (meta w)),
      description = Some (description_value (meta w)),
      tags = Some (TagString (tags_value (meta w))),
      category = Some (category_value (meta w))\<rparr>"

definition showSaveStatus :: "notice \<Rightarrow> bool \<Rightarrow> World \<Rightarrow> World" where
  "showSaveStatus message isError w = w\<lparr>saveStatus := Shown message isError\<rparr>"

definition saveDraft_try :: "Env \<Rightarrow> World \<Rightarrow> error + World" where
  \<comment> \<open>\<open>saveDraft\<close> past its guard, up to the end of the \<open>try\<close> block: \<open>Inl\<close> is an
      exception raised inside the block.\<close>
  "saveDraft_try env w =
     (let metadata = getEditorMetadata w;
          body = (case vditorInstance w of None \<Rightarrow> [] | Some v \<Rightarrow> v_value v)
      in case saveDraftToStorage env (state w) (currentPath w) metadata body (localStorage w) of
           Inl e \<Rightarrow> Inl e
         | Inr ls \<Rightarrow> Inr ((markAsClean (w\<lparr>localStorage := ls\<rparr>))\<lparr>saveStatus := DraftSavedAt (clock env)\<rparr>))"

definition saveDraft :: "Env \<Rightarrow> World \<Rightarrow> World" where
  "saveDraft env w =
     (if \<not> truthy (currentPath w) \<or> vditorInstance w = None \<or> \<not> isDirty w then w
      else (case saveDraft_try env w of
              Inr w' \<Rightarrow> w'
            | Inl e \<Rightarrow> showSaveStatus (Raw e) True w))"

definition clearDraft :: "string option \<Rightarrow> World \<Rightarrow> World" where
  "clearDraft p w = w\<lparr>localStorage := clearDraftFromStorage (state w) p (localStorage w)\<rparr>"

definition resetEditorState :: "World \<Rightarrow> World" where
  "resetEditorState w = setCurrentFile \<lparr>path = None, sha = None, isNew = False\<rparr> w"

definition dateField :: "Env \<Rightarrow> string option \<Rightarrow> string option" where
  \<comment> \<open>\<open>v ? new Date(v).toISOString().split("T")[0] : ""\<close>; \<open>None\<close> when it raises\<close>
  "dateField env v = (if truthy v then isoDay env (orEmpty v) else Some [])"

definition tagsField :: "tagsValue option \<Rightarrow> string" where
  \<comment> \<open>\<open>Array.isArray(tags) ? tags.join(", ") : tags || ""\<close>\<close>
  "tagsField t =
     (case t of
        Some (TagArray ts) \<Rightarrow> join '', '' ts
      | Some (TagString s) \<Rightarrow> s
      | None \<Rightarrow> [])"

definition setMeta :: "(MetaInputs \<Rightarrow> MetaInputs) \<Rightarrow> World \<Rightarrow> World" where
  \<comment> \<open>an assignment to the \<open>value\<close> of inputs of \<open>ui.meta\<close>; it fires no input event\<close>
  "setMeta f w = w\<lparr>meta := f (meta w)\<rparr>"

definition setValue :: "string \<Rightarrow> World \<Rightarrow> World" where
  \<comment> \<open>\<open>if (vditorInstance) vditorInstance.setValue(body)\<close>\<close>
  "setValue b w =
     (case vditorInstance w of
        None \<Rightarrow> w
      | Some v \<Rightarrow>
          (let w' = w\<lparr>vditorInstance := Some (v\<lparr>v_value := b\<rparr>)\<rparr>
           in if inputOnSetValue v then markAsDirty w' else w'))"

definition populateEditor :: "Env \<Rightarrow> Metadata \<Rightarrow> string \<Rightarrow> World \<Rightarrow> error option \<times> World" where
  \<comment> \<open>The assignments in the order of the source; an exception leaves the earlier ones
      done. The first component is the exception raised, if any.\<close>
  "populateEditor env m b w =
     (let w1 = setMeta (\<lambda>i. i\<lparr>title_value := orEmpty (title m)\<rparr>) w in
      case dateField env (published m) of
        None \<Rightarrow> (Some InvalidTime, w1)
      | Some p \<Rightarrow>
          (let w2 = setMeta (\<lambda>i. i\<lparr>published_value := p\<rparr>) w1 in
           case dateField env (updated m) of
             None \<Rightarrow> (Some InvalidTime, w2)
           | Some u \<Rightarrow>
               (let w3 = setMeta (\<lambda>i. i\<lparr>updated_value := u,
                                         description_value := orEmpty (description m),
                                         tags_value := tagsField (tags m),
                                         category_value := orEmpty (category m)\<rparr>) w2
                in (None, setValue b w3))))"

definition today :: "Env \<Rightarrow> string" where
  \<comment> \<open>\<open>new Date().toISOString().split("T")[0]\<close>\<close>
  "today env = (case split ''T'' (clock env) of [] \<Rightarrow> [] | d # _ \<Rightarrow> d)"

definition setTodaysDate :: "Env \<Rightarrow> World \<Rightarrow> World" where
  "setTodaysDate env w =
     setMeta (\<lambda>i. i\<lparr>published_value := today env, updated_value := today env\<rparr>) w"

definition loadDraft :: "Env \<Rightarrow> string option \<Rightarrow> ParsedContent \<Rightarrow> World \<Rightarrow> World" where
  "loadDraft env p originalContent w =
     (case loadDraftFromStorage (state w) p (localStorage w) of
        (ls, Inl e) \<Rightarrow> showSaveStatus (Raw e) True (w\<lparr>localStorage := ls\<rparr>)
      | (ls, Inr None) \<Rightarrow> w
      | (ls, Inr (Some draft)) \<Rightarrow>
          (let originalFull =
                 createFullMarkdown env (pc_metadata originalContent) (pc_body originalContent);
               draftFull = createFullMarkdown env (d_metadata draft) (d_body draft)
           in if trim originalFull = trim draftFull then clearDraft p w
              else (let w1 = w\<lparr>prompts := prompts w @ [DraftDialog (d_savedAt draft)]\<rparr> in
                    if confirm env (DraftDialog (d_savedAt draft))
                    then (case populateEditor env (d_metadata draft) (d_body draft) w1 of
                            (Some e, w2) \<Rightarrow> showSaveStatus (Raw e) True w2
                          | (None, w2) \<Rightarrow> showSaveStatus DraftLoaded False w2)
                    else clearDraft p w1)))"

text \<open>
  An asynchronous handler runs up to its \<open>await\<close>, where it has sent a request, and
  resumes when the response arrives. Each handler is modelled by the part before the
  \<open>await\<close> (\<open>_begin\<close>, which also says whether a request is pending) and the parts that
  resume with the response; other handlers may run in between. The handler under its
  own name is the run with nothing in between.
\<close>

definition sendRequest :: "request \<Rightarrow> World \<Rightarrow> World" where
  "sendRequest r w = w\<lparr>requests := requests w @ [r]\<rparr>"

definition refreshFileList_end :: "bool \<Rightarrow> World \<Rightarrow> World" where
  \<comment> \<open>\<open>refreshFileList\<close> after its request \<open>GetFiles\<close>: the listing arrived, or not\<close>
  "refreshFileList_end listed w = (if listed then w else showSaveStatus RefreshFailed True w)"

definition handleFileClick_begin :: "Env \<Rightarrow> string option option \<Rightarrow> World \<Rightarrow> World \<times> bool" where
  \<comment> \<open>\<open>target\<close> is \<open>None\<close> when the click hit no file item, else the item's \<open>data-path\<close>\<close>
  "handleFileClick_begin env target w =
     (case target of
        None \<Rightarrow> (w, False)
      | Some dataPath \<Rightarrow>
          (let w1 = saveDraft env w;
               p = (if truthy dataPath then dataPath else None);
               w2 = setCurrentFile ((currentFile (state w1))\<lparr>path := p\<rparr>) w1
           in if \<not> truthy p then (w2, False)
              else (sendRequest (GetFileContent (orEmpty p)) w2, True)))"

definition handleFileClick_resume :: "Env \<Rightarrow> error + string \<times> string \<Rightarrow> World \<Rightarrow> World" where
  \<comment> \<open>\<open>result\<close>: the rejection of \<open>getFileContent\<close>, or the content and the sha\<close>
  "handleFileClick_resume env result w =
     (case result of
        Inl e \<Rightarrow> resetEditorState (showSaveStatus (LoadFailed e) True w)
      | Inr (content, sha') \<Rightarrow>
          (let w1 = setCurrentFile ((currentFile (state w))\<lparr>sha := Some sha', isNew := False\<rparr>) w;
               originalContent = parseContent env content
           in case populateEditor env (pc_metadata originalContent) (pc_body originalContent) w1 of
                (Some e, w2) \<Rightarrow> resetEditorState (showSaveStatus (LoadFailed e) True w2)
              | (None, w2) \<Rightarrow>
                  (let w3 = (if \<not> truthy (published (pc_metadata originalContent))
                             then setTodaysDate env w2 else w2);
                       w4 = markAsClean w3
                   in loadDraft env (currentPath w4) originalContent w4)))"

definition handleFileClick ::
  "Env \<Rightarrow> string option option \<Rightarrow> error + string \<times> string \<Rightarrow> World \<Rightarrow> World" where
  "handleFileClick env target result w =
     (case handleFileClick_begin env target w of
        (w1, False) \<Rightarrow> w1
      | (w1, True) \<Rightarrow> handleFileClick_resume env result w1)"

datatype saveAwait = NoAwait | AwaitCreate | AwaitUpdate

definition handleSave_begin :: "Env \<Rightarrow> World \<Rightarrow> World \<times> saveAwait" where
  "handleSave_begin env w =
     (if \<not> truthy (currentPath w) then (showSaveStatus NoFileToSave True w, NoAwait)
      else (case vditorInstance w of
              None \<Rightarrow> (showSaveStatus (SaveFailed NoEditor) True w, NoAwait)
            | Some v \<Rightarrow>
                (let metadata = getEditorMetadata w;
                     body = v_value v;
                     newContent = createFullMarkdown env metadata body
                 in if isNew (currentFile (state w))
                    then (sendRequest (CreateFile (orEmpty (currentPath w)) newContent) w, AwaitCreate)
                    else if \<not> truthy (sha (currentFile (state w)))
                    then (showSaveStatus (SaveFailed MissingShaUpdate) True w, NoAwait)
                    else (sendRequest (UpdateFile (orEmpty (currentPath w)) newContent
                                         (orEmpty (sha (currentFile (state w))))) w,
                          AwaitUpdate))))"

definition handleSave_apply :: "string \<Rightarrow> World \<Rightarrow> World" where
  \<comment> \<open>Lines 564 to 568: what \<open>handleSave\<close> does with the sha of the response\<close>
  "handleSave_apply newSha w =
     (let w1 = setCurrentFile ((currentFile (state w))\<lparr>sha := Some newSha, isNew := False\<rparr>) w;
          w2 = clearDraft (currentPath w1) w1;
          w3 = markAsClean w2
      in showSaveStatus SaveOk False w3)"

definition handleSave_afterUpdate :: "error + string \<Rightarrow> World \<Rightarrow> World" where
  "handleSave_afterUpdate result w =
     (case result of
        Inl e \<Rightarrow> showSaveStatus (SaveFailed e) True w
      | Inr newSha \<Rightarrow> handleSave_apply newSha w)"

definition handleSave_afterCreate :: "error + string \<Rightarrow> World \<Rightarrow> World \<times> string option" where
  \<comment> \<open>After \<open>createFile\<close>: on success the handler awaits \<open>refreshFileList\<close>, holding the
      new sha.\<close>
  "handleSave_afterCreate result w =
     (case result of
        Inl e \<Rightarrow> (showSaveStatus (SaveFailed e) True w, None)
      | Inr newSha \<Rightarrow> (sendRequest GetFiles w, Some newSha))"

definition handleSave_afterRefresh :: "bool \<Rightarrow> string \<Rightarrow> World \<Rightarrow> World" where
  "handleSave_afterRefresh listed newSha w = handleSave_apply newSha (refreshFileList_end listed w)"

definition handleSave :: "Env \<Rightarrow> error + string \<Rightarrow> bool \<Rightarrow> World \<Rightarrow> World" where
  \<comment> \<open>\<open>result\<close> answers the create or update request, \<open>listed\<close> the listing request.\<close>
  "handleSave env result listed w =
     (case handleSave_begin env w of
        (w1, NoAwait) \<Rightarrow> w1
      | (w1, AwaitUpdate) \<Rightarrow> handleSave_afterUpdate result w1
      | (w1, AwaitCreate) \<Rightarrow>
          (case handleSave_afterCreate result w1 of
             (w2, None) \<Rightarrow> w2
           | (w2, Some newSha) \<Rightarrow> handleSave_afterRefresh listed newSha w2))"

definition confirmAndDeleteFile_begin ::
  "Env \<Rightarrow> string \<Rightarrow> string option \<Rightarrow> World \<Rightarrow> World \<times> bool" where
  "confirmAndDeleteFile_begin env p s w =
     (if isNew (currentFile (state w))
      then (showSaveStatus NewFileCancelled False (resetEditorState w), False)
      else (let w1 = w\<lparr>prompts := prompts w @ [DeleteDialog p]\<rparr> in
            if \<not> confirm env (DeleteDialog p) then (w1, False)
            else if \<not> truthy s then (showSaveStatus (DeleteFailed MissingShaDelete) True w1, False)
            else (sendRequest (DeleteFile p (orEmpty s)) w1, True)))"

definition confirmAndDeleteFile_afterDelete ::
  "error option \<Rightarrow> string \<Rightarrow> World \<Rightarrow> World \<times> bool" where
  \<comment> \<open>\<open>result\<close>: the rejection of \<open>deleteFile\<close>, if any. On success the handler awaits
      \<open>refreshFileList\<close>.\<close>
  "confirmAndDeleteFile_afterDelete result p w =
     (case result of
        Some e \<Rightarrow> (showSaveStatus (DeleteFailed e) True w, False)
      | None \<Rightarrow>
          (let w1 = showSaveStatus DeleteOk False w;
               w2 = clearDraft (Some p) w1;
               w3 = (if currentPath w2 = Some p then resetEditorState w2 else w2)
           in (sendRequest GetFiles w3, True)))"

definition confirmAndDeleteFile ::
  "Env \<Rightarrow> error option \<Rightarrow> bool \<Rightarrow> string \<Rightarrow> string option \<Rightarrow> World \<Rightarrow> World" where
  "confirmAndDeleteFile env result listed p s w =
     (case confirmAndDeleteFile_begin env p s w of
        (w1, False) \<Rightarrow> w1
      | (w1, True) \<Rightarrow>
          (case confirmAndDeleteFile_afterDelete result p w1 of
             (w2, False) \<Rightarrow> w2
           | (w2, True) \<Rightarrow> refreshFileList_end listed w2))"

definition handleDeleteButtonClick :: "Env \<Rightarrow> error option \<Rightarrow> bool \<Rightarrow> World \<Rightarrow> World" where
  "handleDeleteButtonClick env result listed w =
     (if \<not> truthy (currentPath w) then showSaveStatus NoFileSelected True w
      else confirmAndDeleteFile env result listed (orEmpty (currentPath w))
             (sha (currentFile (state w))) w)"

definition logout :: "World \<Rightarrow> World" where
  "logout w =
     (let w1 = w\<lparr>localStorage := (localStorage w)(''github_editor_data'' := None)\<rparr>;
          w2 = w1\<lparr>state := (state w1)\<lparr>user := [], repo := [], pat := []\<rparr>\<rparr>
      in resetEditorState w2)"

subsection \<open>What the inputs show\<close>

definition rendered :: "Metadata \<Rightarrow> string \<Rightarrow> string \<Rightarrow> MetaInputs" where
  \<comment> \<open>The inputs that show the metadata \<open>m\<close>, its dates shown as \<open>pd\<close> and \<open>ud\<close>\<close>
  "rendered m pd ud =
     \<lparr>title_value = orEmpty (title m), published_value = pd, updated_value = ud,
      description_value = orEmpty (description m), tags_value = tagsField (tags m),
      category_value = orEmpty (category m)\<rparr>"

definition shownRemote :: "Env \<Rightarrow> Metadata \<Rightarrow> string \<Rightarrow> string \<Rightarrow> MetaInputs" where
  \<comment> \<open>What the inputs show after a remote read: the parsed metadata, or today's date in
      both date fields when the remote metadata has no published date\<close>
  "shownRemote env m pd ud =
     (if truthy (published m) then rendered m pd ud else rendered m (today env) (today env))"

section \<open>A sample environment\<close>

text \<open>
  The examples run the editor against a small YAML library that writes a mapping as
  one \<open>key: value\<close> line per present field, a plain scalar as it is, the empty string
  as two single quotes and an array as a flow sequence, and that reads the same back.
  It knows strings only: where \<open>jsyaml\<close> reads a date, a number or a null, it reads
  the text.
\<close>

definition plainScalar :: "string \<Rightarrow> string" where
  "plainScalar v = (if v = [] then [CHR 0x27, CHR 0x27] else v)"

definition plainEntry :: "string \<Rightarrow> string option \<Rightarrow> string" where
  "plainEntry k v = (case v of None \<Rightarrow> [] | Some s \<Rightarrow> k @ '': '' @ plainScalar s @ [CHR 0x0A])"

definition plainTags :: "tagsValue option \<Rightarrow> string" where
  "plainTags t =
     (case t of
        None \<Rightarrow> []
      | Some (TagString s) \<Rightarrow> ''tags: '' @ plainScalar s @ [CHR 0x0A]
      | Some (TagArray ts) \<Rightarrow> ''tags: ['' @ join '', '' ts @ '']'' @ [CHR 0x0A])"

definition plainDump :: "Metadata \<Rightarrow> string" where
  "plainDump m =
     plainEntry ''title'' (title m) @ plainEntry ''published'' (published m) @
     plainEntry ''updated'' (updated m) @ plainEntry ''description'' (description m) @
     plainTags (tags m) @ plainEntry ''category'' (category m)"

definition readScalar :: "string \<Rightarrow> string" where
  "readScalar v = (if v = [CHR 0x27, CHR 0x27] then [] else v)"

definition readTags :: "string \<Rightarrow> tagsValue" where
  "readTags v =
     (if startsWith ''['' v \<and> v \<noteq> ''['' \<and> last v = CHR '']''
      then (let inner = butlast (tl v) in
            TagArray (if inner = [] then [] else split '', '' inner))
      else TagString (readScalar v))"

definition readLine :: "Metadata option \<Rightarrow> string \<Rightarrow> Metadata option" where
  "readLine acc line =
     (case acc of
        None \<Rightarrow> None
      | Some m \<Rightarrow>
          (case split '': '' line of
             k # v # rest \<Rightarrow>
               (let val = join '': '' (v # rest) in
                if k = ''title'' then Some (m\<lparr>title := Some (readScalar val)\<rparr>)
                else if k = ''published'' then Some (m\<lparr>published := Some (readScalar val)\<rparr>)
                else if k = ''updated'' then Some (m\<lparr>updated := Some (readScalar val)\<rparr>)
                else if k = ''description'' then Some (m\<lparr>description := Some (readScalar val)\<rparr>)
                else if k = ''tags'' then Some (m\<lparr>tags := Some (readTags val)\<rparr>)
                else if k = ''category'' then Some (m\<lparr>category := Some (readScalar val)\<rparr>)
                else Some m)
           | _ \<Rightarrow> None))"

definition plainLoad :: "string \<Rightarrow> loaded" where
  "plainLoad s =
     (let ls = filter (\<lambda>line. line \<noteq> []) (split [CHR 0x0A] s) in
      if ls = [] then LoadFalsy
      else (case foldl readLine (Some emptyMetadata) ls of
              None \<Rightarrow> LoadThrows
            | Some m \<Rightarrow> LoadObject m))"

definition isDigit :: "char \<Rightarrow> bool" where
  "isDigit c = (c \<in> set ''0123456789'')"

definition plainDay :: "string \<Rightarrow> string option" where
  \<comment> \<open>A date of the form YYYY-MM-DD reads as itself; the sample accepts nothing else.\<close>
  "plainDay s =
     (if length s = 10 \<and> list_all isDigit (take 4 s) \<and> s ! 4 = CHR ''-''
         \<and> list_all isDigit (take 2 (drop 5 s)) \<and> s ! 7 = CHR ''-''
         \<and> list_all isDigit (drop 8 s)
      then Some s else None)"

definition accepts :: "dialog \<Rightarrow> bool" where
  "accepts d = True"

definition declines :: "dialog \<Rightarrow> bool" where
  "declines d = False"

definition sampleEnv :: Env where
  "sampleEnv =
     \<lparr>yamlDump = plainDump, yamlLoad = plainLoad, isoDay = plainDay,
      clock = ''2024-05-01T10:00:00.000Z'', setItemFails = False, confirm = accepts\<rparr>"

definition sampleState :: EditorState where
  "sampleState =
     \<lparr>user = ''alice'', repo = ''blog'', pat = ''token'',
      currentFile = \<lparr>path = Some ''src/content/posts/a.md'', sha = Some ''s0'', isNew = False\<rparr>\<rparr>"

definition sampleWorld :: World where
  \<comment> \<open>The file \<open>a.md\<close> is open and has been edited.\<close>
  "sampleWorld =
     \<lparr>state = sampleState, isDirty = True,
      vditorInstance = Some \<lparr>v_value = ''Body text'', inputOnSetValue = False\<rparr>,
      meta = \<lparr>title_value = ''Hello'', published_value = ''2024-01-01'',
              updated_value = ''2024-01-01'', description_value = [],
              tags_value = ''a, b , c'', category_value = []\<rparr>,
      saveStatus = Unsaved, localStorage = Map.empty, prompts = [], requests = []\<rparr>"

definition helloMeta :: Metadata where
  "helloMeta = emptyMetadata\<lparr>title := Some ''Hello''\<rparr>"

definition taggedMeta :: Metadata where
  "taggedMeta = emptyMetadata\<lparr>title := Some ''Hello'', tags := Some (TagString ''a, b , c'')\<rparr>"

definition dashedMeta :: Metadata where
  "dashedMeta = emptyMetadata\<lparr>title := Some ''a---b'', tags := Some (TagString ''a, b , c'')\<rparr>"


definition stateOf :: "string \<Rightarrow> string \<Rightarrow> EditorState" where
  \<comment> \<open>A session of the given account and repository, no file open\<close>
  "stateOf u r =
     \<lparr>user = u, repo = r, pat = ''token'',
      currentFile = \<lparr>path = None, sha = None, isNew = False\<rparr>\<rparr>"

definition fullEnv :: Env where
  \<comment> \<open>The sample environment with the storage quota exhausted\<close>
  "fullEnv = sampleEnv\<lparr>setItemFails := True\<rparr>"

definition cleanWorld :: World where
  \<comment> \<open>The file \<open>a.md\<close> is open and unchanged.\<close>
  "cleanWorld = sampleWorld\<lparr>isDirty := False, saveStatus := Blank\<rparr>"

definition tokenlessWorld :: World where
  \<comment> \<open>The file \<open>a.md\<close> is open, not new, and no sha is held.\<close>
  "tokenlessWorld =
     setCurrentFile \<lparr>path = Some ''src/content/posts/a.md'', sha = None, isNew = False\<rparr> sampleWorld"

definition otherPath :: string where
  "otherPath = ''src/content/posts/b.md''"

definition datedDoc :: string where
  "datedDoc = ''---\<newline>title: Hello\<newline>published: 2024-01-01\<newline>---\<newline>\<newline>Body text''"

definition undatedDoc :: string where
  "undatedDoc = ''---\<newline>title: Note\<newline>updated: 2020-02-02\<newline>---\<newline>\<newline>Body text''"

definition datedMeta :: Metadata where
  "datedMeta = emptyMetadata\<lparr>title := Some ''Hello'', published := Some ''2024-01-01''\<rparr>"

definition storedWorld :: World where
  \<comment> \<open>As \<open>cleanWorld\<close>, with a draft for \<open>b.md\<close> that says what \<open>datedDoc\<close> says\<close>
  "storedWorld = cleanWorld\<lparr>localStorage :=
     [''draft_alice_blog_src/content/posts/b.md'' \<mapsto>
        DraftEntry \<lparr>d_metadata = datedMeta, d_body = ''Body text'',
                     d_savedAt = ''2024-04-30T09:00:00.000Z''\<rparr>]\<rparr>"

definition draftedWorld :: World where
  \<comment> \<open>\<open>a.md\<close> is being opened; a draft of it with an edited body is stored.\<close>
  "draftedWorld = cleanWorld\<lparr>localStorage :=
     [''draft_alice_blog_src/content/posts/a.md'' \<mapsto>
        DraftEntry \<lparr>d_metadata = getEditorMetadata sampleWorld, d_body = ''Body text, edited'',
                     d_savedAt = ''2024-04-30T09:00:00.000Z''\<rparr>]\<rparr>"

definition savingWorld :: World where
  \<comment> \<open>\<open>sampleWorld\<close> after the save button was pressed: the update of \<open>a.md\<close> is in flight\<close>
  "savingWorld = fst (handleSave_begin sampleEnv sampleWorld)"

definition navigatedWorld :: World where
  \<comment> \<open>then the user clicked \<open>b.md\<close>: its content is being fetched\<close>
  "navigatedWorld = fst (handleFileClick_begin sampleEnv (Some (Some otherPath)) savingWorld)"

section \<open>Facts about the string primitives\<close>

lemma split_Nil: "split sep [] = (if sep = [] then [] else [[]])"
  by (simp add: split.simps)

lemma split_Cons:
  "split sep (c # cs) =
     (if sep = [] then map (\<lambda>c. [c]) (c # cs)
      else if startsWith sep (c # cs) then [] # split sep (drop (length sep) (c # cs))
      else (case split sep cs of [] \<Rightarrow> [[c]] | p # ps \<Rightarrow> (c # p) # ps))"
  by (subst split.simps) (simp split: list.splits)

lemma split_not_Nil: "sep \<noteq> [] \<Longrightarrow> split sep s \<noteq> []"
  by (induction sep s rule: split.induct) (subst split.simps, simp split: list.splits)

lemma startsWith_append: "startsWith sep (sep @ r)"
  by (simp add: startsWith_def)

lemma split_at_sep: "sep \<noteq> [] \<Longrightarrow> split sep (sep @ r) = [] # split sep r"
  by (subst split.simps) (simp add: startsWith_append)

lemma join_Cons_nonempty: "ys \<noteq> [] \<Longrightarrow> join sep (x # ys) = x @ sep @ join sep ys"
  by (cases ys) simp_all

text \<open>
  Joining the pieces of a split with the separator gives the string back: this is why
  \<open>parts.slice(2).join("---")\<close> restores a body that contains the delimiter.
\<close>

lemma join_split: "sep \<noteq> [] \<Longrightarrow> join sep (split sep s) = s"
proof (induction sep s rule: split.induct)
  case (1 sep s)
  show ?case
  proof (cases "s = []")
    case True
    with 1(3) show ?thesis by (simp add: split_Nil)
  next
    case False
    note ne = this
    show ?thesis
    proof (cases "startsWith sep s")
      case True
      have "split sep s = [] # split sep (drop (length sep) s)"
        using 1(3) ne True by (subst split.simps) simp
      moreover have "join sep (split sep (drop (length sep) s)) = drop (length sep) s"
        using 1(1) [OF 1(3) ne True] 1(3) by simp
      moreover have "sep @ drop (length sep) s = s"
        using True by (metis append_take_drop_id startsWith_def)
      ultimately show ?thesis
        using split_not_Nil [OF 1(3)] by (simp add: join_Cons_nonempty)
    next
      case False
      have ih: "join sep (split sep (tl s)) = tl s"
        using 1(2) [OF 1(3) ne False] 1(3) by simp
      obtain p ps where pp: "split sep (tl s) = p # ps"
        using split_not_Nil [OF 1(3)] by (cases "split sep (tl s)") auto
      have "split sep s = (hd s # p) # ps"
        using 1(3) ne False pp by (subst split.simps) simp
      moreover have "join sep ((hd s # p) # ps) = hd s # join sep (p # ps)"
        by (cases ps) simp_all
      ultimately show ?thesis using ih pp ne by simp
    qed
  qed
qed

section \<open>Content codec: serialize, then parse\<close>

text \<open>
  When the metadata block holds no delimiter, the first cut after the opening delimiter
  is the closing one: a delimiter cannot start inside the block, nor across the line
  feed that follows it.
\<close>

lemma delimiter_not_across_newline:
  assumes "\<not> startsWith ''---'' (c # S)"
  shows "\<not> startsWith ''---'' (c # S @ CHR 0x0A # r)"
proof (cases S)
  case Nil
  then show ?thesis by (simp add: startsWith_def)
next
  case (Cons x xs)
  with assms show ?thesis by (cases xs) (simp_all add: startsWith_def)
qed

lemma split_block:
  "\<not> occursIn ''---'' S \<Longrightarrow>
   split ''---'' (S @ CHR 0x0A # ''---'' @ r) = (S @ [CHR 0x0A]) # split ''---'' r"
proof (induction S)
  case Nil
  have "split ''---'' (CHR 0x0A # ''---'' @ r) = [CHR 0x0A] # split ''---'' r"
    using split_at_sep [of "''---''" r]
    by (subst split_Cons) (simp add: startsWith_def)
  then show ?case by simp
next
  case (Cons c S)
  from Cons.prems have a: "\<not> startsWith ''---'' (c # S)" and b: "\<not> occursIn ''---'' S"
    by simp_all
  have "\<not> startsWith ''---'' (c # S @ CHR 0x0A # ''---'' @ r)"
    using delimiter_not_across_newline [OF a] .
  then have "split ''---'' ((c # S) @ CHR 0x0A # ''---'' @ r) =
      (case split ''---'' (S @ CHR 0x0A # ''---'' @ r) of [] \<Rightarrow> [[c]] | p # ps \<Rightarrow> (c # p) # ps)"
    by (simp add: split_Cons)
  then show ?case using Cons.IH [OF b] by simp
qed

lemma trim_newline: "trim (CHR 0x0A # s) = trim s"
  by (simp add: trim_def isSpace_def)

lemma split_createFullMarkdown:
  assumes "\<not> occursIn ''---'' (stringifyMetadata env m)"
  shows "split ''---'' (createFullMarkdown env m b) =
           [] # (CHR 0x0A # stringifyMetadata env m @ [CHR 0x0A]) # split ''---'' (CHR 0x0A # CHR 0x0A # b)"
proof -
  let ?S = "stringifyMetadata env m"
  have "\<not> occursIn ''---'' (CHR 0x0A # ?S)"
    using assms by (simp add: startsWith_def)
  then have "split ''---'' ((CHR 0x0A # ?S) @ CHR 0x0A # ''---'' @ CHR 0x0A # CHR 0x0A # b) =
      ((CHR 0x0A # ?S) @ [CHR 0x0A]) # split ''---'' (CHR 0x0A # CHR 0x0A # b)"
    by (rule split_block)
  moreover have "createFullMarkdown env m b =
      ''---'' @ ((CHR 0x0A # ?S) @ CHR 0x0A # ''---'' @ CHR 0x0A # CHR 0x0A # b)"
    by (simp add: createFullMarkdown_def)
  ultimately show ?thesis
    using split_at_sep [of "''---''" "(CHR 0x0A # ?S) @ CHR 0x0A # ''---'' @ CHR 0x0A # CHR 0x0A # b"]
    by simp
qed

text \<open>
  What \<open>parseContent\<close> makes of a serialized document: the YAML library reads the block
  between two line feeds, and the body comes back trimmed.
\<close>

lemma parseContent_createFullMarkdown:
  assumes "\<not> occursIn ''---'' (stringifyMetadata env m)"
  shows "parseContent env (createFullMarkdown env m b) =
           (case yamlLoad env (CHR 0x0A # stringifyMetadata env m @ [CHR 0x0A]) of
              LoadThrows \<Rightarrow> \<lparr>pc_metadata = emptyMetadata, pc_body = createFullMarkdown env m b\<rparr>
            | LoadFalsy \<Rightarrow> \<lparr>pc_metadata = emptyMetadata, pc_body = trim b\<rparr>
            | LoadObject m' \<Rightarrow> \<lparr>pc_metadata = m', pc_body = trim b\<rparr>)"
proof -
  have ne: "split ''---'' (CHR 0x0A # CHR 0x0A # b) \<noteq> []"
    by (rule split_not_Nil) simp
  have j: "join ''---'' (split ''---'' (CHR 0x0A # CHR 0x0A # b)) = CHR 0x0A # CHR 0x0A # b"
    by (rule join_split) simp
  show ?thesis
    unfolding parseContent_def split_createFullMarkdown [OF assms]
    using ne j by (cases "split ''---'' (CHR 0x0A # CHR 0x0A # b)")
      (simp_all add: trim_newline Let_def split: loaded.splits)
qed

lemma cleanTags_abc: "cleanTags (Some (TagString ''a, b , c'')) = TagArray [''a'', ''b'', ''c'']"
  by code_simp

text \<open>
  C10, as amended. For every metadata record whose tags field is the string
  \<open>"a, b , c"\<close>: when the serialized block contains no \<open>---\<close> and the YAML library reads
  the block back with the tags it was given, serializing and then parsing yields the
  tags \<open>["a", "b", "c"]\<close>.
\<close>

theorem tags_roundtrip:
  assumes "tags m = Some (TagString ''a, b , c'')"
    and "\<not> occursIn ''---'' (stringifyMetadata env m)"
    and "yamlLoad env (CHR 0x0A # stringifyMetadata env m @ [CHR 0x0A]) = LoadObject m'"
    and "tags m' = tags (cleanMeta m)"
  shows "tags (pc_metadata (parseContent env (createFullMarkdown env m b))) =
           Some (TagArray [''a'', ''b'', ''c''])"
  using assms by (simp add: parseContent_createFullMarkdown cleanMeta_def cleanTags_abc)

text \<open>
  The tags of a record with the title \<open>Hello\<close> come back as the three entries.
\<close>

theorem tags_roundtrip_witness:
  "tags taggedMeta = Some (TagString ''a, b , c'') \<and>
   \<not> occursIn ''---'' (stringifyMetadata sampleEnv taggedMeta) \<and>
   yamlLoad sampleEnv (CHR 0x0A # stringifyMetadata sampleEnv taggedMeta @ [CHR 0x0A]) =
     LoadObject (cleanMeta taggedMeta) \<and>
   tags (pc_metadata (parseContent sampleEnv (createFullMarkdown sampleEnv taggedMeta ''Body''))) =
     Some (TagArray [''a'', ''b'', ''c''])"
proof -
  have a: "tags taggedMeta = Some (TagString ''a, b , c'')"
    by (simp add: taggedMeta_def)
  have b: "\<not> occursIn ''---'' (stringifyMetadata sampleEnv taggedMeta)"
    by code_simp
  have c: "yamlLoad sampleEnv (CHR 0x0A # stringifyMetadata sampleEnv taggedMeta @ [CHR 0x0A]) =
     LoadObject (cleanMeta taggedMeta)"
    by code_simp
  show ?thesis
    using a b c tags_roundtrip [OF a b c refl, of "''Body''"] by simp
qed

text \<open>
  C10 as stated fails: with the title \<open>a---b\<close> the parser cuts the block inside the
  title line, and the parsed metadata has no tags at all.
\<close>

theorem tags_lost:
  "tags (pc_metadata (parseContent sampleEnv (createFullMarkdown sampleEnv dashedMeta ''Body''))) = None"
  by code_simp

subsection \<open>The post-processing of the YAML text\<close>













subsection \<open>The round trip\<close>










section \<open>Draft keys\<close>

lemma getDraftKey_Some:
  "getDraftKey st p = Some k \<longleftrightarrow>
     (\<exists>q. p = Some q \<and> q \<noteq> [] \<and> k = ''draft_'' @ user st @ CHR ''_'' # repo st @ CHR ''_'' # q)"
  by (cases p) (auto simp: getDraftKey_def truthy_def orEmpty_def)

lemma cut_at_first:
  assumes "c \<notin> set xs" "c \<notin> set xs'" "xs @ c # ys = xs' @ c # ys'"
  shows "xs = xs' \<and> ys = ys'"
proof -
  have "takeWhile (\<lambda>x. x \<noteq> c) (xs @ c # ys) = xs"
    using assms(1) by (auto simp: takeWhile_tail takeWhile_eq_all_conv)
  moreover have "takeWhile (\<lambda>x. x \<noteq> c) (xs' @ c # ys') = xs'"
    using assms(2) by (auto simp: takeWhile_tail takeWhile_eq_all_conv)
  ultimately have "xs = xs'" using assms(3) by simp
  with assms(3) show ?thesis by simp
qed

lemma key_parts_unique:
  assumes "CHR ''_'' \<notin> set u1" "CHR ''_'' \<notin> set r1" "CHR ''_'' \<notin> set u2" "CHR ''_'' \<notin> set r2"
    and "u1 @ CHR ''_'' # r1 @ CHR ''_'' # q1 = u2 @ CHR ''_'' # r2 @ CHR ''_'' # q2"
  shows "u1 = u2 \<and> r1 = r2 \<and> q1 = q2"
proof -
  have a: "u1 = u2 \<and> r1 @ CHR ''_'' # q1 = r2 @ CHR ''_'' # q2"
    using assms(1,3,5) by (rule cut_at_first)
  then have b: "r1 @ CHR ''_'' # q1 = r2 @ CHR ''_'' # q2" ..
  have "r1 = r2 \<and> q1 = q2"
    using assms(2,4) b by (rule cut_at_first)
  with a show ?thesis by blast
qed

lemma getDraftKey_inj:
  assumes "CHR ''_'' \<notin> set (user s1)" "CHR ''_'' \<notin> set (repo s1)"
    and "CHR ''_'' \<notin> set (user s2)" "CHR ''_'' \<notin> set (repo s2)"
    and "getDraftKey s1 p1 = Some k" "getDraftKey s2 p2 = Some k"
  shows "user s1 = user s2 \<and> repo s1 = repo s2 \<and> p1 = p2"
proof -
  from assms(5) obtain q1 where q1: "p1 = Some q1"
      "k = ''draft_'' @ user s1 @ CHR ''_'' # repo s1 @ CHR ''_'' # q1"
    unfolding getDraftKey_Some by blast
  from assms(6) obtain q2 where q2: "p2 = Some q2"
      "k = ''draft_'' @ user s2 @ CHR ''_'' # repo s2 @ CHR ''_'' # q2"
    unfolding getDraftKey_Some by blast
  have "''draft_'' @ user s1 @ CHR ''_'' # repo s1 @ CHR ''_'' # q1 =
        ''draft_'' @ user s2 @ CHR ''_'' # repo s2 @ CHR ''_'' # q2"
    using q1(2) q2(2) by (rule trans [OF sym])
  then have "user s1 @ CHR ''_'' # repo s1 @ CHR ''_'' # q1 =
      user s2 @ CHR ''_'' # repo s2 @ CHR ''_'' # q2"
    by simp
  from key_parts_unique [OF assms(1-4) this] q1(1) q2(1) show ?thesis by simp
qed

text \<open>
  C6, as amended. Among sessions whose account and repository names contain no
  underscore, two (account, repository, path) triples with the same draft key are the
  same triple, and saving a draft under one account and repository does not change
  what a session of another account or repository loads.
\<close>

theorem draft_keys_distinct:
  assumes "CHR ''_'' \<notin> set (user s1)" "CHR ''_'' \<notin> set (repo s1)"
    and "CHR ''_'' \<notin> set (user s2)" "CHR ''_'' \<notin> set (repo s2)"
  shows "(getDraftKey s1 p1 = Some k \<and> getDraftKey s2 p2 = Some k \<longrightarrow>
            user s1 = user s2 \<and> repo s1 = repo s2 \<and> p1 = p2)
       \<and> ((user s1, repo s1) \<noteq> (user s2, repo s2) \<and>
            saveDraftToStorage env s1 p1 m b ls = Inr ls' \<longrightarrow>
            snd (loadDraftFromStorage s2 p2 ls') = snd (loadDraftFromStorage s2 p2 ls))"
proof (rule conjI; rule impI)
  assume "getDraftKey s1 p1 = Some k \<and> getDraftKey s2 p2 = Some k"
  then show "user s1 = user s2 \<and> repo s1 = repo s2 \<and> p1 = p2"
    using getDraftKey_inj [OF assms] by blast
next
  assume h: "(user s1, repo s1) \<noteq> (user s2, repo s2) \<and>
            saveDraftToStorage env s1 p1 m b ls = Inr ls'"
  then have ne: "\<not> (user s1 = user s2 \<and> repo s1 = repo s2)"
    and sv: "saveDraftToStorage env s1 p1 m b ls = Inr ls'" by simp_all
  show "snd (loadDraftFromStorage s2 p2 ls') = snd (loadDraftFromStorage s2 p2 ls)"
  proof (cases "getDraftKey s1 p1")
    case None
    with sv show ?thesis by (simp add: saveDraftToStorage_def)
  next
    case (Some k1)
    with sv have ls': "ls' = ls(k1 \<mapsto> DraftEntry \<lparr>d_metadata = m, d_body = b, d_savedAt = clock env\<rparr>)"
      by (simp add: saveDraftToStorage_def Let_def split: if_splits)
    show ?thesis
    proof (cases "getDraftKey s2 p2")
      case None
      then show ?thesis by (simp add: loadDraftFromStorage_def)
    next
      case k2: (Some k2)
      have "k2 \<noteq> k1"
      proof
        assume "k2 = k1"
        with k2 have "getDraftKey s2 p2 = Some k1" by simp
        from getDraftKey_inj [OF assms Some this] ne show False by blast
      qed
      then show ?thesis using k2
        by (simp add: loadDraftFromStorage_def ls' split: option.splits stored.splits)
    qed
  qed
qed

text \<open>
  A draft saved by \<open>alice\<close> is not what \<open>bob\<close> loads for the same repository name and path.
\<close>

theorem draft_keys_distinct_witness:
  "CHR ''_'' \<notin> set (user (stateOf ''alice'' ''blog'')) \<and>
   CHR ''_'' \<notin> set (repo (stateOf ''alice'' ''blog'')) \<and>
   CHR ''_'' \<notin> set (user (stateOf ''bob'' ''blog'')) \<and>
   CHR ''_'' \<notin> set (repo (stateOf ''bob'' ''blog'')) \<and>
   (user (stateOf ''alice'' ''blog''), repo (stateOf ''alice'' ''blog'')) \<noteq>
     (user (stateOf ''bob'' ''blog''), repo (stateOf ''bob'' ''blog'')) \<and>
   saveDraftToStorage sampleEnv (stateOf ''alice'' ''blog'') (Some ''src/content/posts/x.md'')
     helloMeta ''secret'' Map.empty =
     Inr [''draft_alice_blog_src/content/posts/x.md'' \<mapsto>
           DraftEntry \<lparr>d_metadata = helloMeta, d_body = ''secret'', d_savedAt = clock sampleEnv\<rparr>] \<and>
   snd (loadDraftFromStorage (stateOf ''bob'' ''blog'') (Some ''src/content/posts/x.md'')
     [''draft_alice_blog_src/content/posts/x.md'' \<mapsto>
           DraftEntry \<lparr>d_metadata = helloMeta, d_body = ''secret'', d_savedAt = clock sampleEnv\<rparr>]) =
     snd (loadDraftFromStorage (stateOf ''bob'' ''blog'') (Some ''src/content/posts/x.md'') Map.empty)"
proof -
  have a: "CHR ''_'' \<notin> set (user (stateOf ''alice'' ''blog''))"
     "CHR ''_'' \<notin> set (repo (stateOf ''alice'' ''blog''))"
     "CHR ''_'' \<notin> set (user (stateOf ''bob'' ''blog''))"
     "CHR ''_'' \<notin> set (repo (stateOf ''bob'' ''blog''))"
    by (simp_all add: stateOf_def)
  have b: "(user (stateOf ''alice'' ''blog''), repo (stateOf ''alice'' ''blog'')) \<noteq>
     (user (stateOf ''bob'' ''blog''), repo (stateOf ''bob'' ''blog''))"
    by (simp add: stateOf_def)
  have c: "saveDraftToStorage sampleEnv (stateOf ''alice'' ''blog'') (Some ''src/content/posts/x.md'')
     helloMeta ''secret'' Map.empty =
     Inr [''draft_alice_blog_src/content/posts/x.md'' \<mapsto>
           DraftEntry \<lparr>d_metadata = helloMeta, d_body = ''secret'', d_savedAt = clock sampleEnv\<rparr>]"
    by (simp add: stateOf_def getDraftKey_def truthy_def orEmpty_def saveDraftToStorage_def sampleEnv_def)
  note t = draft_keys_distinct [OF a, THEN conjunct2, rule_format, OF conjI, OF b c]
  from a b c t show ?thesis by (intro conjI)
qed

text \<open>
  C6 as stated fails: the sessions (\<open>a_b\<close>, \<open>c\<close>) and (\<open>a\<close>, \<open>b_c\<close>) share the key of every
  path, and the second loads the draft the first saved.
\<close>

theorem draft_keys_collide:
  "(user (stateOf ''a_b'' ''c''), repo (stateOf ''a_b'' ''c'')) \<noteq>
     (user (stateOf ''a'' ''b_c''), repo (stateOf ''a'' ''b_c'')) \<and>
   getDraftKey (stateOf ''a_b'' ''c'') (Some ''src/content/posts/x.md'') =
     getDraftKey (stateOf ''a'' ''b_c'') (Some ''src/content/posts/x.md'') \<and>
   saveDraftToStorage sampleEnv (stateOf ''a_b'' ''c'') (Some ''src/content/posts/x.md'')
       helloMeta ''secret'' Map.empty =
     Inr [''draft_a_b_c_src/content/posts/x.md'' \<mapsto>
            DraftEntry \<lparr>d_metadata = helloMeta, d_body = ''secret'',
                         d_savedAt = ''2024-05-01T10:00:00.000Z''\<rparr>] \<and>
   snd (loadDraftFromStorage (stateOf ''a'' ''b_c'') (Some ''src/content/posts/x.md'')
          [''draft_a_b_c_src/content/posts/x.md'' \<mapsto>
             DraftEntry \<lparr>d_metadata = helloMeta, d_body = ''secret'',
                          d_savedAt = ''2024-05-01T10:00:00.000Z''\<rparr>]) =
     Inr (Some \<lparr>d_metadata = helloMeta, d_body = ''secret'',
                 d_savedAt = ''2024-05-01T10:00:00.000Z''\<rparr>)"
  by (simp add: stateOf_def getDraftKey_def truthy_def orEmpty_def saveDraftToStorage_def
      loadDraftFromStorage_def sampleEnv_def)

section \<open>The periodic flush\<close>

text \<open>
  C4. The flush (\<open>saveDraft\<close>) does nothing when no path is set or the state is not
  dirty. When it runs on a dirty file and the storage accepts the write, the draft under
  the file's key holds the six values of the metadata inputs (the tags as the string
  typed), the widget's text and the time of the flush, and the state is clean. When the storage refuses, the exception of the \<open>try\<close>
  block stays inside \<open>saveDraft\<close>: the state is as before but for the status line, which
  shows the error.
\<close>

theorem saveDraft_flush:
  "(\<not> truthy (currentPath w) \<or> \<not> isDirty w \<longrightarrow> saveDraft env w = w)
   \<and> (truthy (currentPath w) \<and> isDirty w \<and> vditorInstance w = Some v \<and> \<not> setItemFails env
        \<and> getDraftKey (state w) (currentPath w) = Some key \<longrightarrow>
        localStorage (saveDraft env w) key =
          Some (DraftEntry \<lparr>d_metadata =
                  \<lparr>title = Some (title_value (meta w)),
                    published = Some (published_value (meta w)),
                    updated = Some (updated_value (meta w)),
                    description = Some (description_value (meta w)),
                    tags = Some (TagString (tags_value (meta w))),
                    category = Some (category_value (meta w))\<rparr>, d_body = v_value v,
                             d_savedAt = clock env\<rparr>)
        \<and> isDirty (saveDraft env w) = False
        \<and> state (saveDraft env w) = state w \<and> meta (saveDraft env w) = meta w
        \<and> vditorInstance (saveDraft env w) = vditorInstance w)
   \<and> (truthy (currentPath w) \<and> isDirty w \<and> vditorInstance w = Some v \<and> setItemFails env \<longrightarrow>
        saveDraft_try env w = Inl StorageFull
        \<and> saveDraft env w = w\<lparr>saveStatus := Shown (Raw StorageFull) True\<rparr>)
   \<and> (\<forall>e. saveDraft_try env w = Inl e \<longrightarrow>
        saveDraft env w = w \<or> saveDraft env w = w\<lparr>saveStatus := Shown (Raw e) True\<rparr>)"
proof (intro conjI impI allI)
  assume "\<not> truthy (currentPath w) \<or> \<not> isDirty w"
  then show "saveDraft env w = w" by (auto simp: saveDraft_def)
next
  assume h: "truthy (currentPath w) \<and> isDirty w \<and> vditorInstance w = Some v \<and> \<not> setItemFails env
        \<and> getDraftKey (state w) (currentPath w) = Some key"
  then have t: "saveDraft_try env w =
      Inr ((markAsClean (w\<lparr>localStorage := (localStorage w)(key \<mapsto>
              DraftEntry \<lparr>d_metadata =
                  \<lparr>title = Some (title_value (meta w)),
                    published = Some (published_value (meta w)),
                    updated = Some (updated_value (meta w)),
                    description = Some (description_value (meta w)),
                    tags = Some (TagString (tags_value (meta w))),
                    category = Some (category_value (meta w))\<rparr>, d_body = v_value v,
                           d_savedAt = clock env\<rparr>)\<rparr>))\<lparr>saveStatus := DraftSavedAt (clock env)\<rparr>)"
    by (simp add: saveDraft_try_def saveDraftToStorage_def Let_def getEditorMetadata_def)
  from h t show "localStorage (saveDraft env w) key =
          Some (DraftEntry \<lparr>d_metadata =
                  \<lparr>title = Some (title_value (meta w)),
                    published = Some (published_value (meta w)),
                    updated = Some (updated_value (meta w)),
                    description = Some (description_value (meta w)),
                    tags = Some (TagString (tags_value (meta w))),
                    category = Some (category_value (meta w))\<rparr>, d_body = v_value v,
                             d_savedAt = clock env\<rparr>)"
    by (simp add: saveDraft_def markAsClean_def)
  from h t show "isDirty (saveDraft env w) = False"
    by (simp add: saveDraft_def markAsClean_def)
  from h t show "state (saveDraft env w) = state w"
    by (simp add: saveDraft_def markAsClean_def)
  from h t show "meta (saveDraft env w) = meta w"
    by (simp add: saveDraft_def markAsClean_def)
  from h t show "vditorInstance (saveDraft env w) = vditorInstance w"
    by (simp add: saveDraft_def markAsClean_def)
next
  assume h: "truthy (currentPath w) \<and> isDirty w \<and> vditorInstance w = Some v \<and> setItemFails env"
  then have k: "getDraftKey (state w) (currentPath w) \<noteq> None"
    by (simp add: getDraftKey_def)
  then show t: "saveDraft_try env w = Inl StorageFull"
    using h by (auto simp: saveDraft_try_def saveDraftToStorage_def Let_def)
  from h t show "saveDraft env w = w\<lparr>saveStatus := Shown (Raw StorageFull) True\<rparr>"
    by (simp add: saveDraft_def showSaveStatus_def)
next
  fix e
  assume "saveDraft_try env w = Inl e"
  then show "saveDraft env w = w \<or> saveDraft env w = w\<lparr>saveStatus := Shown (Raw e) True\<rparr>"
    by (simp add: saveDraft_def showSaveStatus_def)
qed

text \<open>
  The flush of a clean file, of an edited file, and of an edited file with the storage
  full.
\<close>

theorem saveDraft_flush_witness:
  "\<not> isDirty cleanWorld \<and> saveDraft sampleEnv cleanWorld = cleanWorld
   \<and> truthy (currentPath sampleWorld) \<and> isDirty sampleWorld
   \<and> \<not> setItemFails sampleEnv \<and> setItemFails fullEnv
   \<and> localStorage (saveDraft sampleEnv sampleWorld) ''draft_alice_blog_src/content/posts/a.md'' =
        Some (DraftEntry \<lparr>d_metadata =
                  \<lparr>title = Some ''Hello'', published = Some ''2024-01-01'',
                   updated = Some ''2024-01-01'', description = Some [],
                   tags = Some (TagString ''a, b , c''), category = Some []\<rparr>, d_body = ''Body text'',
                           d_savedAt = ''2024-05-01T10:00:00.000Z''\<rparr>)
   \<and> isDirty (saveDraft sampleEnv sampleWorld) = False
   \<and> saveDraft_try fullEnv sampleWorld = Inl StorageFull
   \<and> saveDraft fullEnv sampleWorld = sampleWorld\<lparr>saveStatus := Shown (Raw StorageFull) True\<rparr>"
proof -
  have a: "\<not> isDirty cleanWorld" by (simp add: cleanWorld_def)
  have b: "truthy (currentPath sampleWorld)" "isDirty sampleWorld"
      "vditorInstance sampleWorld = Some \<lparr>v_value = ''Body text'', inputOnSetValue = False\<rparr>"
      "\<not> setItemFails sampleEnv" "setItemFails fullEnv"
      "getDraftKey (state sampleWorld) (currentPath sampleWorld) =
         Some ''draft_alice_blog_src/content/posts/a.md''"
    by (simp_all add: sampleWorld_def sampleState_def sampleEnv_def fullEnv_def currentPath_def truthy_def
        getDraftKey_def orEmpty_def)
  have c: "clock sampleEnv = ''2024-05-01T10:00:00.000Z''" by (simp add: sampleEnv_def)
  have m: "meta sampleWorld =
      \<lparr>title_value = ''Hello'', published_value = ''2024-01-01'', updated_value = ''2024-01-01'',
       description_value = [], tags_value = ''a, b , c'', category_value = []\<rparr>"
    by (simp add: sampleWorld_def)
  note f1 = saveDraft_flush [of cleanWorld sampleEnv, THEN conjunct1, rule_format, OF disjI2, OF a]
  note f2 = saveDraft_flush [of sampleWorld sampleEnv, THEN conjunct2, THEN conjunct1, rule_format,
      OF conjI [OF b(1) conjI [OF b(2) conjI [OF b(3) conjI [OF b(4) b(6)]]]]]
  note f3 = saveDraft_flush [of sampleWorld fullEnv, THEN conjunct2, THEN conjunct2, THEN conjunct1, rule_format,
      OF conjI [OF b(1) conjI [OF b(2) conjI [OF b(3) b(5)]]]]
  show ?thesis
    using a b f1 f2 f3 by (simp add: c m)
qed

section \<open>Saving without a version token\<close>

text \<open>
  C5. Saving an existing (not new) active file for which no sha is held fails with the
  missing-sha error before any request is sent: the list of requests is unchanged, and
  so is everything else but the status line.
\<close>

theorem save_without_token:
  assumes "truthy (currentPath w)"
    and "\<not> isNew (currentFile (state w))"
    and "\<not> truthy (sha (currentFile (state w)))"
    and "vditorInstance w = Some v"
  shows "handleSave_begin env w = (w\<lparr>saveStatus := Shown (SaveFailed MissingShaUpdate) True\<rparr>, NoAwait)
       \<and> handleSave env result listed w = w\<lparr>saveStatus := Shown (SaveFailed MissingShaUpdate) True\<rparr>
       \<and> requests (handleSave env result listed w) = requests w"
proof -
  have b: "handleSave_begin env w =
      (w\<lparr>saveStatus := Shown (SaveFailed MissingShaUpdate) True\<rparr>, NoAwait)"
    using assms by (simp add: handleSave_begin_def showSaveStatus_def Let_def)
  then show ?thesis by (simp add: handleSave_def)
qed

text \<open>
  Saving \<open>a.md\<close> with no sha held sends nothing.
\<close>

theorem save_without_token_witness:
  "truthy (currentPath tokenlessWorld) \<and> \<not> isNew (currentFile (state tokenlessWorld))
   \<and> \<not> truthy (sha (currentFile (state tokenlessWorld)))
   \<and> handleSave sampleEnv (Inr ''s1'') True tokenlessWorld =
       tokenlessWorld\<lparr>saveStatus := Shown (SaveFailed MissingShaUpdate) True\<rparr>
   \<and> requests (handleSave sampleEnv (Inr ''s1'') True tokenlessWorld) = []"
proof -
  have a: "truthy (currentPath tokenlessWorld)" "\<not> isNew (currentFile (state tokenlessWorld))"
      "\<not> truthy (sha (currentFile (state tokenlessWorld)))"
      "vditorInstance tokenlessWorld = Some \<lparr>v_value = ''Body text'', inputOnSetValue = False\<rparr>"
      "requests tokenlessWorld = []"
    by (simp_all add: tokenlessWorld_def sampleWorld_def sampleState_def setCurrentFile_def
        currentPath_def truthy_def)
  from a save_without_token [OF a(1-4), of sampleEnv "Inr ''s1''" True]
  show ?thesis by simp
qed

section \<open>Leaving a file\<close>

text \<open>
  C8, as amended. \<open>resetEditorState\<close> (on logout, on deleting or cancelling the active
  file) clears the current file and leaves the dirty flag as it was; a file switch to
  no selection leaves it as the flush of the previous file left it. While no file is
  active, \<open>markAsDirty\<close> and the flush do nothing.
\<close>

theorem dirty_flag_survives_reset:
  "isDirty (resetEditorState w) = isDirty w
   \<and> currentFile (state (resetEditorState w)) = \<lparr>path = None, sha = None, isNew = False\<rparr>
   \<and> isDirty (logout w) = isDirty w \<and> currentPath (logout w) = None
   \<and> isDirty (handleDeleteButtonClick env result listed w) = isDirty w
   \<and> isDirty (fst (handleFileClick_begin env (Some None) w)) = isDirty (saveDraft env w)
   \<and> (currentPath w = None \<longrightarrow> markAsDirty w = w \<and> saveDraft env w = w)"
  by (auto simp: resetEditorState_def setCurrentFile_def logout_def Let_def currentPath_def
      handleDeleteButtonClick_def confirmAndDeleteFile_def confirmAndDeleteFile_begin_def
      confirmAndDeleteFile_afterDelete_def refreshFileList_end_def showSaveStatus_def
      sendRequest_def clearDraft_def handleFileClick_begin_def truthy_def markAsDirty_def
      saveDraft_def split: option.splits)

text \<open>
  After logging out of an edited file there is no file, the flag is as before, and an
  edit event or a flush changes nothing.
\<close>

theorem dirty_flag_survives_reset_witness:
  "currentPath (logout sampleWorld) = None \<and> isDirty (logout sampleWorld) = isDirty sampleWorld
   \<and> markAsDirty (logout sampleWorld) = logout sampleWorld
   \<and> saveDraft sampleEnv (logout sampleWorld) = logout sampleWorld"
proof -
  note t = dirty_flag_survives_reset [of sampleWorld]
  have a: "currentPath (logout sampleWorld) = None" using t by simp
  note u = dirty_flag_survives_reset [of "logout sampleWorld" sampleEnv, THEN conjunct2, THEN conjunct2,
      THEN conjunct2, THEN conjunct2, THEN conjunct2, THEN conjunct2, rule_format, OF a]
  from t u a show ?thesis by simp
qed

text \<open>
  C8 as stated fails: logging out of an edited file leaves no file and a set dirty
  flag.
\<close>

theorem dirty_after_logout:
  "isDirty sampleWorld \<and> currentPath (logout sampleWorld) = None \<and> isDirty (logout sampleWorld)"
  by (simp add: sampleWorld_def logout_def resetEditorState_def setCurrentFile_def currentPath_def)

section \<open>Opening a file: the divergence check\<close>

lemma populateEditor_ok:
  assumes "dateField env (published m) = Some pd" "dateField env (updated m) = Some ud"
  shows "populateEditor env m b w = (None, setValue b (w\<lparr>meta := rendered m pd ud\<rparr>))"
  using assms by (cases "meta w") (simp add: populateEditor_def setMeta_def rendered_def Let_def)

lemma loadDraft_absent:
  assumes "getDraftKey (state w) p = Some key" "localStorage w key = None"
  shows "loadDraft env p oc w = w"
  using assms by (simp add: loadDraft_def loadDraftFromStorage_def)

lemma loadDraft_identical:
  assumes "getDraftKey (state w) p = Some key" "localStorage w key = Some (DraftEntry d)"
    and "trim (createFullMarkdown env (pc_metadata oc) (pc_body oc)) =
         trim (createFullMarkdown env (d_metadata d) (d_body d))"
  shows "loadDraft env p oc w = w\<lparr>localStorage := (localStorage w)(key := None)\<rparr>"
  using assms
  by (simp add: loadDraft_def loadDraftFromStorage_def clearDraft_def clearDraftFromStorage_def)

lemma loadDraft_declined:
  assumes "getDraftKey (state w) p = Some key" "localStorage w key = Some (DraftEntry d)"
    and "trim (createFullMarkdown env (pc_metadata oc) (pc_body oc)) \<noteq>
         trim (createFullMarkdown env (d_metadata d) (d_body d))"
    and "\<not> confirm env (DraftDialog (d_savedAt d))"
  shows "loadDraft env p oc w =
           w\<lparr>prompts := prompts w @ [DraftDialog (d_savedAt d)],
              localStorage := (localStorage w)(key := None)\<rparr>"
  using assms
  by (simp add: loadDraft_def loadDraftFromStorage_def clearDraft_def clearDraftFromStorage_def Let_def)

lemma loadDraft_accepted:
  assumes "getDraftKey (state w) p = Some key" "localStorage w key = Some (DraftEntry d)"
    and "trim (createFullMarkdown env (pc_metadata oc) (pc_body oc)) \<noteq>
         trim (createFullMarkdown env (d_metadata d) (d_body d))"
    and "confirm env (DraftDialog (d_savedAt d))"
  shows "loadDraft env p oc w =
           (case populateEditor env (d_metadata d) (d_body d)
                   (w\<lparr>prompts := prompts w @ [DraftDialog (d_savedAt d)]\<rparr>) of
              (Some e, w2) \<Rightarrow> showSaveStatus (Raw e) True w2
            | (None, w2) \<Rightarrow> showSaveStatus DraftLoaded False w2)"
  using assms
  by (simp add: loadDraft_def loadDraftFromStorage_def Let_def)

text \<open>
  When the remote read succeeds and the dates can be shown, the handler reaches the
  divergence check with the remote content in the inputs and a clean state.
\<close>

lemma resume_before_loadDraft:
  assumes "dateField env (published (pc_metadata (parseContent env content))) = Some pd"
    and "dateField env (updated (pc_metadata (parseContent env content))) = Some ud"
  shows "handleFileClick_resume env (Inr (content, s)) w =
           loadDraft env (currentPath w) (parseContent env content)
             (w\<lparr>state := (state w)\<lparr>currentFile := (currentFile (state w))\<lparr>sha := Some s, isNew := False\<rparr>\<rparr>,
                meta := shownRemote env (pc_metadata (parseContent env content)) pd ud,
                vditorInstance := map_option (\<lambda>v. v\<lparr>v_value := pc_body (parseContent env content)\<rparr>)
                                    (vditorInstance w),
                isDirty := False, saveStatus := Blank\<rparr>)"
  using assms
  by (cases w; cases "vditorInstance w")
     (auto simp: handleFileClick_resume_def populateEditor_ok Let_def setValue_def
      setCurrentFile_def setTodaysDate_def setMeta_def markAsClean_def markAsDirty_def
      shownRemote_def rendered_def currentPath_def)

lemma getDraftKey_currentFile [simp]:
  "getDraftKey (st\<lparr>currentFile := cf\<rparr>) p = getDraftKey st p"
  by (simp add: getDraftKey_def)

lemma saveDraft_frame:
  "state (saveDraft env w) = state w \<and> prompts (saveDraft env w) = prompts w
   \<and> vditorInstance (saveDraft env w) = vditorInstance w \<and> requests (saveDraft env w) = requests w"
  by (simp add: saveDraft_def saveDraft_try_def saveDraftToStorage_def Let_def markAsClean_def
      showSaveStatus_def split: option.splits sum.splits)

lemma handleFileClick_unfold:
  assumes "p \<noteq> []"
  shows "handleFileClick env (Some (Some p)) result w =
     handleFileClick_resume env result
       (sendRequest (GetFileContent p)
          (setCurrentFile ((currentFile (state w))\<lparr>path := Some p\<rparr>) (saveDraft env w)))"
  using assms saveDraft_frame [of env w]
  by (simp add: handleFileClick_def handleFileClick_begin_def Let_def truthy_def orEmpty_def
      setCurrentFile_def)

text \<open>
  C2, as amended. Opening the file \<open>p\<close>, when the remote read succeeds and the dates can
  be shown: if no draft is stored under the file's key when the divergence check runs
  (that is, after the flush of the previously open file), or the stored draft
  serializes to the text of the remote content (after trimming), then no dialog is
  shown, no draft remains under the key, the state is clean, and the inputs show the
  parsed remote content, with today's date in both date fields when the remote
  metadata has no published date (\<open>shownRemote\<close>).
\<close>

theorem open_without_divergence:
  assumes "p \<noteq> []"
    and "oc = parseContent env content"
    and "dateField env (published (pc_metadata oc)) = Some pd"
    and "dateField env (updated (pc_metadata oc)) = Some ud"
    and "getDraftKey (state w) (Some p) = Some key"
    and "localStorage (saveDraft env w) key = None \<or>
         (\<exists>d. localStorage (saveDraft env w) key = Some (DraftEntry d) \<and>
              trim (createFullMarkdown env (pc_metadata oc) (pc_body oc)) =
              trim (createFullMarkdown env (d_metadata d) (d_body d)))"
    and "w' = handleFileClick env (Some (Some p)) (Inr (content, s)) w"
  shows "prompts w' = prompts w
       \<and> localStorage w' key = None
       \<and> meta w' = shownRemote env (pc_metadata oc) pd ud
       \<and> vditorInstance w' = map_option (\<lambda>v. v\<lparr>v_value := pc_body oc\<rparr>) (vditorInstance w)
       \<and> isDirty w' = False
       \<and> currentFile (state w') = \<lparr>path = Some p, sha = Some s, isNew = False\<rparr>"
proof -
  let ?w2 = "sendRequest (GetFileContent p)
          (setCurrentFile ((currentFile (state w))\<lparr>path := Some p\<rparr>) (saveDraft env w))"
  let ?w4 = "?w2\<lparr>state := (state ?w2)\<lparr>currentFile := (currentFile (state ?w2))\<lparr>sha := Some s, isNew := False\<rparr>\<rparr>,
                meta := shownRemote env (pc_metadata oc) pd ud,
                vditorInstance := map_option (\<lambda>v. v\<lparr>v_value := pc_body oc\<rparr>) (vditorInstance ?w2),
                isDirty := False, saveStatus := Blank\<rparr>"
  have w': "w' = loadDraft env (currentPath ?w2) oc ?w4"
    using assms(2,3,4) unfolding assms(7) handleFileClick_unfold [OF assms(1)]
    by (simp add: resume_before_loadDraft)
  have cp: "currentPath ?w2 = Some p"
    by (simp add: currentPath_def sendRequest_def setCurrentFile_def)
  have key: "getDraftKey (state ?w4) (Some p) = Some key"
    using assms(5) saveDraft_frame [of env w]
    by (simp add: sendRequest_def setCurrentFile_def)
  have ls: "localStorage ?w4 = localStorage (saveDraft env w)"
    by (simp add: sendRequest_def setCurrentFile_def)
  have fr: "prompts ?w4 = prompts w" "meta ?w4 = shownRemote env (pc_metadata oc) pd ud"
    "vditorInstance ?w4 = map_option (\<lambda>v. v\<lparr>v_value := pc_body oc\<rparr>) (vditorInstance w)"
    "isDirty ?w4 = False"
    "currentFile (state ?w4) = \<lparr>path = Some p, sha = Some s, isNew = False\<rparr>"
    using saveDraft_frame [of env w]
    by (simp_all add: sendRequest_def setCurrentFile_def)
  from assms(6) show ?thesis
  proof
    assume "localStorage (saveDraft env w) key = None"
    then have "w' = ?w4"
      unfolding w' cp using loadDraft_absent [OF key] ls by simp
    then show ?thesis using fr ls \<open>localStorage (saveDraft env w) key = None\<close> by simp
  next
    assume "\<exists>d. localStorage (saveDraft env w) key = Some (DraftEntry d) \<and>
              trim (createFullMarkdown env (pc_metadata oc) (pc_body oc)) =
              trim (createFullMarkdown env (d_metadata d) (d_body d))"
    then obtain d where d: "localStorage ?w4 key = Some (DraftEntry d)"
        "trim (createFullMarkdown env (pc_metadata oc) (pc_body oc)) =
              trim (createFullMarkdown env (d_metadata d) (d_body d))"
      using ls by auto
    have "w' = ?w4\<lparr>localStorage := (localStorage ?w4)(key := None)\<rparr>"
      unfolding w' cp by (rule loadDraft_identical [OF key d])
    then show ?thesis using fr by simp
  qed
qed

lemma parse_datedDoc: "parseContent sampleEnv datedDoc = \<lparr>pc_metadata = datedMeta, pc_body = ''Body text''\<rparr>"
  by code_simp

text \<open>
  Opening \<open>b.md\<close> with no draft stored, and with a stored draft that says what the
  remote content says.
\<close>

theorem open_without_divergence_witness:
  "prompts (handleFileClick sampleEnv (Some (Some otherPath)) (Inr (datedDoc, ''s1'')) cleanWorld) = []
   \<and> meta (handleFileClick sampleEnv (Some (Some otherPath)) (Inr (datedDoc, ''s1'')) cleanWorld) =
       \<lparr>title_value = ''Hello'', published_value = ''2024-01-01'', updated_value = [],
        description_value = [], tags_value = [], category_value = []\<rparr>
   \<and> localStorage storedWorld ''draft_alice_blog_src/content/posts/b.md'' \<noteq> None
   \<and> prompts (handleFileClick sampleEnv (Some (Some otherPath)) (Inr (datedDoc, ''s1'')) storedWorld) = []
   \<and> localStorage (handleFileClick sampleEnv (Some (Some otherPath)) (Inr (datedDoc, ''s1'')) storedWorld)
        ''draft_alice_blog_src/content/posts/b.md'' = None"
proof -
  let ?oc = "\<lparr>pc_metadata = datedMeta, pc_body = ''Body text''\<rparr>"
  let ?key = "''draft_alice_blog_src/content/posts/b.md''"
  let ?d = "\<lparr>d_metadata = datedMeta, d_body = ''Body text'', d_savedAt = ''2024-04-30T09:00:00.000Z''\<rparr>"
  have p: "otherPath \<noteq> []" by (simp add: otherPath_def)
  have oc: "?oc = parseContent sampleEnv datedDoc" by (simp add: parse_datedDoc)
  have pd: "dateField sampleEnv (published (pc_metadata ?oc)) = Some ''2024-01-01''" by code_simp
  have ud: "dateField sampleEnv (updated (pc_metadata ?oc)) = Some []" by code_simp
  have k1: "getDraftKey (state cleanWorld) (Some otherPath) = Some ?key" by code_simp
  have k2: "getDraftKey (state storedWorld) (Some otherPath) = Some ?key" by code_simp
  have n1: "localStorage (saveDraft sampleEnv cleanWorld) ?key = None" by code_simp
  have n2: "localStorage (saveDraft sampleEnv storedWorld) ?key = Some (DraftEntry ?d)" by code_simp
  have same: "trim (createFullMarkdown sampleEnv (pc_metadata ?oc) (pc_body ?oc)) =
              trim (createFullMarkdown sampleEnv (d_metadata ?d) (d_body ?d))" by simp
  have pr: "prompts cleanWorld = []" "prompts storedWorld = []"
    by (simp_all add: cleanWorld_def storedWorld_def sampleWorld_def)
  have sh: "shownRemote sampleEnv (pc_metadata ?oc) ''2024-01-01'' [] =
       \<lparr>title_value = ''Hello'', published_value = ''2024-01-01'', updated_value = [],
        description_value = [], tags_value = [], category_value = []\<rparr>" by code_simp
  have st: "localStorage storedWorld ?key \<noteq> None" by (simp add: storedWorld_def)
  note a = open_without_divergence [OF p oc pd ud k1 disjI1 [OF n1] refl, of "''s1''"]
  have "\<exists>d. localStorage (saveDraft sampleEnv storedWorld) ?key = Some (DraftEntry d) \<and>
              trim (createFullMarkdown sampleEnv (pc_metadata ?oc) (pc_body ?oc)) =
              trim (createFullMarkdown sampleEnv (d_metadata d) (d_body d))"
    using n2 same by blast
  note b = open_without_divergence [OF p oc pd ud k2 disjI2 [OF this] refl, of "''s1''"]
  from a b pr sh st show ?thesis by simp
qed

text \<open>
  C2 as stated fails: the remote content has the updated date 2020-02-02 and no
  published date, no draft is stored, and the input shows today's date.
\<close>

theorem open_shows_today:
  "updated (pc_metadata (parseContent sampleEnv undatedDoc)) = Some ''2020-02-02'' \<and>
   localStorage cleanWorld ''draft_alice_blog_src/content/posts/b.md'' = None \<and>
   updated_value (meta (handleFileClick sampleEnv (Some (Some otherPath)) (Inr (undatedDoc, ''s1'')) cleanWorld))
     = ''2024-05-01''"
  by code_simp

text \<open>
  The rest of C1 holds. When the stored draft differs and the user declines, the dialog
  was shown once, the draft is gone and the inputs show the remote content. When the
  user accepts, the dialog was shown once and the inputs show the draft; the state is
  dirty exactly when the widget calls its input callback from \<open>setValue\<close>.
\<close>

lemma open_declined:
  assumes "oc = parseContent env content"
    and "dateField env (published (pc_metadata oc)) = Some pd"
    and "dateField env (updated (pc_metadata oc)) = Some ud"
    and "getDraftKey (state w) (currentPath w) = Some key"
    and "localStorage w key = Some (DraftEntry d)"
    and "trim (createFullMarkdown env (pc_metadata oc) (pc_body oc)) \<noteq>
         trim (createFullMarkdown env (d_metadata d) (d_body d))"
    and "\<not> confirm env (DraftDialog (d_savedAt d))"
    and "w' = handleFileClick_resume env (Inr (content, s)) w"
  shows "prompts w' = prompts w @ [DraftDialog (d_savedAt d)]
       \<and> localStorage w' key = None
       \<and> meta w' = shownRemote env (pc_metadata oc) pd ud
       \<and> vditorInstance w' = map_option (\<lambda>v. v\<lparr>v_value := pc_body oc\<rparr>) (vditorInstance w)"
proof -
  let ?w4 = "w\<lparr>state := (state w)\<lparr>currentFile := (currentFile (state w))\<lparr>sha := Some s, isNew := False\<rparr>\<rparr>,
                meta := shownRemote env (pc_metadata oc) pd ud,
                vditorInstance := map_option (\<lambda>v. v\<lparr>v_value := pc_body oc\<rparr>) (vditorInstance w),
                isDirty := False, saveStatus := Blank\<rparr>"
  have w': "w' = loadDraft env (currentPath w) oc ?w4"
    using assms(1,2,3) unfolding assms(8) by (simp add: resume_before_loadDraft)
  have key: "getDraftKey (state ?w4) (currentPath w) = Some key"
    using assms(4) by simp
  have ls: "localStorage ?w4 key = Some (DraftEntry d)"
    using assms(5) by simp
  show ?thesis
    unfolding w' loadDraft_declined [OF key ls assms(6,7)] by simp
qed

lemma open_accepted_shows_draft:
  assumes "oc = parseContent env content"
    and "dateField env (published (pc_metadata oc)) = Some pd"
    and "dateField env (updated (pc_metadata oc)) = Some ud"
    and "vditorInstance w = Some v"
    and "getDraftKey (state w) (currentPath w) = Some key"
    and "localStorage w key = Some (DraftEntry d)"
    and "trim (createFullMarkdown env (pc_metadata oc) (pc_body oc)) \<noteq>
         trim (createFullMarkdown env (d_metadata d) (d_body d))"
    and "confirm env (DraftDialog (d_savedAt d))"
    and "dateField env (published (d_metadata d)) = Some dpd"
    and "dateField env (updated (d_metadata d)) = Some dud"
    and "w' = handleFileClick_resume env (Inr (content, s)) w"
  shows "prompts w' = prompts w @ [DraftDialog (d_savedAt d)]
       \<and> meta w' = rendered (d_metadata d) dpd dud
       \<and> vditorInstance w' = Some (v\<lparr>v_value := d_body d\<rparr>)
       \<and> localStorage w' key = Some (DraftEntry d)
       \<and> isDirty w' = (inputOnSetValue v \<and> truthy (currentPath w))"
proof -
  let ?w4 = "w\<lparr>state := (state w)\<lparr>currentFile := (currentFile (state w))\<lparr>sha := Some s, isNew := False\<rparr>\<rparr>,
                meta := shownRemote env (pc_metadata oc) pd ud,
                vditorInstance := map_option (\<lambda>v. v\<lparr>v_value := pc_body oc\<rparr>) (vditorInstance w),
                isDirty := False, saveStatus := Blank\<rparr>"
  let ?w5 = "?w4\<lparr>prompts := prompts ?w4 @ [DraftDialog (d_savedAt d)]\<rparr>"
  have w': "w' = loadDraft env (currentPath w) oc ?w4"
    using assms(1,2,3) unfolding assms(11) by (simp add: resume_before_loadDraft)
  have key: "getDraftKey (state ?w4) (currentPath w) = Some key"
    using assms(5) by simp
  have ls: "localStorage ?w4 key = Some (DraftEntry d)"
    using assms(6) by simp
  have acc: "w' = showSaveStatus DraftLoaded False
      (setValue (d_body d) (?w5\<lparr>meta := rendered (d_metadata d) dpd dud\<rparr>))"
    unfolding w' loadDraft_accepted [OF key ls assms(7,8)]
    by (simp add: populateEditor_ok [OF assms(9,10)])
  show ?thesis
    unfolding acc using assms(4,6)
    by (simp add: setValue_def showSaveStatus_def markAsDirty_def currentPath_def Let_def)
qed

lemma populateEditor_quiet:
  assumes "vditorInstance w = Some v" "\<not> inputOnSetValue v"
  shows "isDirty (snd (populateEditor env m b w)) = isDirty w
       \<and> prompts (snd (populateEditor env m b w)) = prompts w"
  using assms
  by (simp add: populateEditor_def setMeta_def setValue_def Let_def split: option.splits)

text \<open>
  C1 fails on the code. Opening a file whose stored draft differs from the remote
  content shows the dialog once, with the draft's save time; when the user accepts, the
  state is not dirty: \<open>populateEditor\<close> assigns the inputs and calls \<open>setValue\<close>, and with
  a widget that does not call its input callback from \<open>setValue\<close> nothing marks the state
  dirty after the \<open>markAsClean\<close> of the remote load.
\<close>

theorem accepted_draft_stays_clean:
  assumes "oc = parseContent env content"
    and "dateField env (published (pc_metadata oc)) = Some pd"
    and "dateField env (updated (pc_metadata oc)) = Some ud"
    and "vditorInstance w = Some v" and "\<not> inputOnSetValue v"
    and "getDraftKey (state w) (currentPath w) = Some key"
    and "localStorage w key = Some (DraftEntry d)"
    and "trim (createFullMarkdown env (pc_metadata oc) (pc_body oc)) \<noteq>
         trim (createFullMarkdown env (d_metadata d) (d_body d))"
    and "confirm env (DraftDialog (d_savedAt d))"
    and "w' = handleFileClick_resume env (Inr (content, s)) w"
  shows "prompts w' = prompts w @ [DraftDialog (d_savedAt d)] \<and> isDirty w' = False"
proof -
  let ?w4 = "w\<lparr>state := (state w)\<lparr>currentFile := (currentFile (state w))\<lparr>sha := Some s, isNew := False\<rparr>\<rparr>,
                meta := shownRemote env (pc_metadata oc) pd ud,
                vditorInstance := map_option (\<lambda>v. v\<lparr>v_value := pc_body oc\<rparr>) (vditorInstance w),
                isDirty := False, saveStatus := Blank\<rparr>"
  let ?w5 = "?w4\<lparr>prompts := prompts ?w4 @ [DraftDialog (d_savedAt d)]\<rparr>"
  have w': "w' = loadDraft env (currentPath w) oc ?w4"
    using assms(1,2,3) unfolding assms(10) by (simp add: resume_before_loadDraft)
  have key: "getDraftKey (state ?w4) (currentPath w) = Some key"
    using assms(6) by simp
  have ls: "localStorage ?w4 key = Some (DraftEntry d)"
    using assms(7) by simp
  have acc: "w' = (case populateEditor env (d_metadata d) (d_body d) ?w5 of
              (Some e, w2) \<Rightarrow> showSaveStatus (Raw e) True w2
            | (None, w2) \<Rightarrow> showSaveStatus DraftLoaded False w2)"
    unfolding w' by (rule loadDraft_accepted [OF key ls assms(8,9)])
  have v: "vditorInstance ?w5 = Some (v\<lparr>v_value := pc_body oc\<rparr>)"
      "\<not> inputOnSetValue (v\<lparr>v_value := pc_body oc\<rparr>)"
    using assms(4,5) by simp_all
  note q = populateEditor_quiet [OF v, of env "d_metadata d" "d_body d"]
  obtain r w6 where pe: "populateEditor env (d_metadata d) (d_body d) ?w5 = (r, w6)"
    by (cases "populateEditor env (d_metadata d) (d_body d) ?w5")
  from q pe have "isDirty w6 = False" "prompts w6 = prompts w @ [DraftDialog (d_savedAt d)]"
    by simp_all
  then show ?thesis
    unfolding acc pe by (cases r) (simp_all add: showSaveStatus_def)
qed

text \<open>
  The edited draft of \<open>a.md\<close> is accepted: its body is shown and the state is clean.
\<close>

theorem accepted_draft_stays_clean_witness:
  "confirm sampleEnv (DraftDialog ''2024-04-30T09:00:00.000Z'')
   \<and> prompts (handleFileClick_resume sampleEnv (Inr (datedDoc, ''s1'')) draftedWorld) =
        [DraftDialog ''2024-04-30T09:00:00.000Z'']
   \<and> vditorInstance (handleFileClick_resume sampleEnv (Inr (datedDoc, ''s1'')) draftedWorld) =
        Some \<lparr>v_value = ''Body text, edited'', inputOnSetValue = False\<rparr>
   \<and> isDirty (handleFileClick_resume sampleEnv (Inr (datedDoc, ''s1'')) draftedWorld) = False"
proof -
  let ?oc = "\<lparr>pc_metadata = datedMeta, pc_body = ''Body text''\<rparr>"
  let ?key = "''draft_alice_blog_src/content/posts/a.md''"
  let ?d = "\<lparr>d_metadata = getEditorMetadata sampleWorld, d_body = ''Body text, edited'',
             d_savedAt = ''2024-04-30T09:00:00.000Z''\<rparr>"
  have oc: "?oc = parseContent sampleEnv datedDoc" by (simp add: parse_datedDoc)
  have pd: "dateField sampleEnv (published (pc_metadata ?oc)) = Some ''2024-01-01''" by code_simp
  have ud: "dateField sampleEnv (updated (pc_metadata ?oc)) = Some []" by code_simp
  have v: "vditorInstance draftedWorld = Some \<lparr>v_value = ''Body text'', inputOnSetValue = False\<rparr>"
    by (simp add: draftedWorld_def cleanWorld_def sampleWorld_def)
  have nv: "\<not> inputOnSetValue \<lparr>v_value = ''Body text'', inputOnSetValue = False\<rparr>" by simp
  have k: "getDraftKey (state draftedWorld) (currentPath draftedWorld) = Some ?key" by code_simp
  have ls: "localStorage draftedWorld ?key = Some (DraftEntry ?d)" by (simp add: draftedWorld_def)
  have ne: "trim (createFullMarkdown sampleEnv (pc_metadata ?oc) (pc_body ?oc)) \<noteq>
         trim (createFullMarkdown sampleEnv (d_metadata ?d) (d_body ?d))" by code_simp
  have c: "confirm sampleEnv (DraftDialog (d_savedAt ?d))" by (simp add: sampleEnv_def accepts_def)
  have pr: "prompts draftedWorld = []" by (simp add: draftedWorld_def cleanWorld_def sampleWorld_def)
  have b: "vditorInstance (handleFileClick_resume sampleEnv (Inr (datedDoc, ''s1'')) draftedWorld) =
        Some \<lparr>v_value = ''Body text, edited'', inputOnSetValue = False\<rparr>" by code_simp
  note t = accepted_draft_stays_clean [OF oc pd ud v nv k ls ne c refl, of "''s1''"]
  from t c pr b show ?thesis by simp
qed

section \<open>Responses that arrive after the user moved on\<close>

text \<open>
  What \<open>handleSave\<close> does with a response does not depend on the file the save was
  started on: after an update and after a create alike, lines 564 to 568 write the
  returned sha into whichever file is current.
\<close>

lemma handleSave_apply_any:
  "currentFile (state (handleSave_apply newSha w)) =
     (currentFile (state w))\<lparr>sha := Some newSha, isNew := False\<rparr>
   \<and> isDirty (handleSave_apply newSha w) = False
   \<and> saveStatus (handleSave_apply newSha w) = Shown SaveOk False
   \<and> handleSave_afterUpdate (Inr newSha) w = handleSave_apply newSha w
   \<and> handleSave_afterRefresh listed newSha w = handleSave_apply newSha (refreshFileList_end listed w)"
  by (simp add: handleSave_apply_def handleSave_afterUpdate_def handleSave_afterRefresh_def Let_def
      setCurrentFile_def clearDraft_def markAsClean_def showSaveStatus_def)

text \<open>
  The delete handler, in contrast, holds its path: when the deleted file is no longer
  the current one, the response leaves the current file, the dirty flag and the editor
  alone (lines 393 and 394).
\<close>

lemma late_delete_result_compares_path:
  assumes "currentPath w \<noteq> Some p"
  shows "currentFile (state (fst (confirmAndDeleteFile_afterDelete None p w))) = currentFile (state w)
       \<and> isDirty (fst (confirmAndDeleteFile_afterDelete None p w)) = isDirty w
       \<and> meta (fst (confirmAndDeleteFile_afterDelete None p w)) = meta w
       \<and> vditorInstance (fst (confirmAndDeleteFile_afterDelete None p w)) = vditorInstance w"
  using assms
  by (simp add: confirmAndDeleteFile_afterDelete_def Let_def showSaveStatus_def clearDraft_def
      currentPath_def sendRequest_def)

text \<open>
  C7 fails on the code. A save was started on one file, and before its response arrives
  the user has clicked another file \<open>q\<close>. The claim asks that the response change
  nothing. In the code the response is applied to \<open>q\<close>: its sha becomes the one
  returned, the draft under its key is removed, the state is clean and the status line
  reports success. Likewise a failed read that arrives late resets whichever file is
  current.
\<close>

theorem late_save_result_applied:
  assumes "handleSave_begin env w0 = (w1, AwaitUpdate)"
    and "handleFileClick_begin env' (Some (Some q)) w1 = (w2, True)"
    and "Some q \<noteq> currentPath w0"
    and "w3 = handleSave_afterUpdate (Inr newSha) w2"
  shows "currentPath w2 = Some q \<and> currentPath w2 \<noteq> currentPath w0
       \<and> currentFile (state w3) = \<lparr>path = Some q, sha = Some newSha, isNew = False\<rparr>
       \<and> isDirty w3 = False
       \<and> (\<forall>key. getDraftKey (state w2) (Some q) = Some key \<longrightarrow> localStorage w3 key = None)
       \<and> saveStatus w3 = Shown SaveOk False
       \<and> currentPath (handleFileClick_resume env' (Inl e) w2) = None"
proof -
  from assms(2) have q: "q \<noteq> []"
    by (auto simp: handleFileClick_begin_def Let_def truthy_def split: if_splits)
  with assms(2) have w2: "w2 = sendRequest (GetFileContent q)
          (setCurrentFile ((currentFile (state (saveDraft env' w1)))\<lparr>path := Some q\<rparr>) (saveDraft env' w1))"
    by (simp add: handleFileClick_begin_def Let_def truthy_def orEmpty_def)
  have cp: "currentPath w2 = Some q"
    unfolding w2 by (simp add: currentPath_def sendRequest_def setCurrentFile_def)
  have w3: "w3 = handleSave_apply newSha w2"
    unfolding assms(4) by (simp add: handleSave_afterUpdate_def)
  have cf: "currentFile (state w3) = \<lparr>path = Some q, sha = Some newSha, isNew = False\<rparr>"
    unfolding w3 using cp
    by (simp add: handleSave_apply_def Let_def setCurrentFile_def clearDraft_def markAsClean_def
        showSaveStatus_def currentPath_def)
  have rest: "isDirty w3 = False" "saveStatus w3 = Shown SaveOk False"
    unfolding w3
    by (simp_all add: handleSave_apply_def Let_def setCurrentFile_def clearDraft_def markAsClean_def
        showSaveStatus_def)
  have cleared: "localStorage w3 key = None" if "getDraftKey (state w2) (Some q) = Some key" for key
    unfolding w3 using that cp
    by (simp add: handleSave_apply_def Let_def setCurrentFile_def clearDraft_def markAsClean_def
        showSaveStatus_def currentPath_def clearDraftFromStorage_def)
  have lost: "currentPath (handleFileClick_resume env' (Inl e) w2) = None"
    by (simp add: handleFileClick_resume_def resetEditorState_def setCurrentFile_def
        showSaveStatus_def currentPath_def)
  from cp assms(3) cf rest cleared lost show ?thesis by simp
qed

text \<open>
  A save of \<open>a.md\<close> is in flight, the user clicks \<open>b.md\<close>, and the response arrives.
\<close>

theorem late_save_result_applied_witness:
  "handleSave_begin sampleEnv sampleWorld = (savingWorld, AwaitUpdate)
   \<and> handleFileClick_begin sampleEnv (Some (Some otherPath)) savingWorld = (navigatedWorld, True)
   \<and> Some otherPath \<noteq> currentPath sampleWorld
   \<and> currentFile (state (handleSave_afterUpdate (Inr ''s1'') navigatedWorld)) =
        \<lparr>path = Some otherPath, sha = Some ''s1'', isNew = False\<rparr>
   \<and> isDirty (handleSave_afterUpdate (Inr ''s1'') navigatedWorld) = False
   \<and> currentPath (handleFileClick_resume sampleEnv (Inl (Transport ''Not Found'')) navigatedWorld) = None"
proof -
  have "snd (handleSave_begin sampleEnv sampleWorld) = AwaitUpdate" by code_simp
  then have a: "handleSave_begin sampleEnv sampleWorld = (savingWorld, AwaitUpdate)"
    by (simp add: savingWorld_def prod_eq_iff)
  have "snd (handleFileClick_begin sampleEnv (Some (Some otherPath)) savingWorld) = True" by code_simp
  then have b: "handleFileClick_begin sampleEnv (Some (Some otherPath)) savingWorld = (navigatedWorld, True)"
    by (simp add: navigatedWorld_def prod_eq_iff)
  have c: "Some otherPath \<noteq> currentPath sampleWorld" by code_simp
  note t = late_save_result_applied [OF a b c refl, of "''s1''" "Transport ''Not Found''"]
  from a b c t show ?thesis by simp
qed

text \<open>
  The same run, step by step: the response to the save of \<open>a.md\<close> arrives when \<open>b.md\<close> is
  current, and it changes the sha held for \<open>b.md\<close>.
\<close>

lemma late_save_result_changes_state:
  "snd (handleSave_begin sampleEnv sampleWorld) = AwaitUpdate
   \<and> currentPath sampleWorld = Some ''src/content/posts/a.md''
   \<and> currentFile (state navigatedWorld) =
        \<lparr>path = Some ''src/content/posts/b.md'', sha = Some ''s0'', isNew = False\<rparr>
   \<and> currentFile (state (handleSave_afterUpdate (Inr ''s1'') navigatedWorld)) =
        \<lparr>path = Some ''src/content/posts/b.md'', sha = Some ''s1'', isNew = False\<rparr>"
  by code_simp

end
